theory Spec2Isabelle
  imports Main "HOL-Library.AList"
begin

section \<open>Python values used by club_app/models.py\<close>

text \<open>
  A \<^verbatim>\<open>date\<close> is kept as its day number and a \<^verbatim>\<open>datetime\<close> as an instant; an
  attribute that holds \<^verbatim>\<open>None\<close> is \<open>None\<close> of the option type. Strings are byte
  strings (the UTF-8 encoding of the Python text).
\<close>

datatype temporal = Date int | DateTime int

datatype error = TypeError | KeyError | NoReverseMatch | IntegrityError | ProtectedError

text \<open>
  The values found in a display mapping: Python is dynamically typed, so a mapping may
  hold a string, an integer, a boolean or a nested mapping. An \<^verbatim>\<open>OrderedDict\<close> is an
  association list in insertion order.
\<close>

datatype pyval = PStr string | PInt int | PBool bool | PDict "(string \<times> pyval) list"

type_synonym ordered_dict = "(string \<times> pyval) list"

definition setitem :: "ordered_dict \<Rightarrow> string \<Rightarrow> pyval \<Rightarrow> ordered_dict" where
  \<comment> \<open>\<^verbatim>\<open>d[k] = v\<close>: an existing key keeps its place, a new key goes to the end.\<close>
  "setitem d k v = AList.update k v d"

definition getitem :: "ordered_dict \<Rightarrow> string \<Rightarrow> error + pyval" where
  \<comment> \<open>\<^verbatim>\<open>d[k]\<close> raises KeyError on a missing key.\<close>
  "getitem d k = (case map_of d k of None \<Rightarrow> Inl KeyError | Some v \<Rightarrow> Inr v)"

definition keys :: "ordered_dict \<Rightarrow> string list" where
  "keys d = map fst d"

definition values_of :: "ordered_dict \<Rightarrow> pyval list" where
  "values_of d = map snd d"

fun join :: "string \<Rightarrow> string list \<Rightarrow> string" where
  "join sep [] = []"
| "join sep [x] = x"
| "join sep (x # y # ys) = x @ sep @ join sep (y # ys)"

fun as_str :: "pyval \<Rightarrow> string option" where
  "as_str (PStr s) = Some s"
| "as_str _ = None"

definition join_values :: "string \<Rightarrow> pyval list \<Rightarrow> error + string" where
  \<comment> \<open>\<^verbatim>\<open>sep.join(vs)\<close> on values of unknown type: TypeError unless every item is a string.\<close>
  "join_values sep vs =
     (case those (map as_str vs) of None \<Rightarrow> Inl TypeError | Some ss \<Rightarrow> Inr (join sep ss))"

definition SEP :: string where
  \<comment> \<open>The literal \<^verbatim>\<open>' > '\<close> of the source, whose middle character is U+203A
      (bytes E2 80 BA).\<close>
  "SEP = [CHR 0x20, CHR 0xE2, CHR 0x80, CHR 0xBA, CHR 0x20]"

fun has_bool :: "pyval \<Rightarrow> bool" where
  "has_bool (PBool b) = True"
| "has_bool (PDict d) = list_ex (\<lambda>kv. has_bool (snd kv)) d"
| "has_bool _ = False"

section \<open>Helpers imported by models.py and not defined in the repository\<close>

text \<open>
  \<^verbatim>\<open>format_local_date\<close> and \<^verbatim>\<open>str_dict\<close> (django_jinja_knockout.tpl) and the URL
  resolver behind \<^verbatim>\<open>reverse\<close> are parameters of the functions that call them:
  \<open>fmt\<close> renders the value of a date attribute, \<open>reverse\<close> resolves a view name and
  its keyword arguments to a URL or raises.
\<close>

type_synonym formatter = "temporal option \<Rightarrow> string"

type_synonym resolver = "string \<Rightarrow> (string \<times> int option) list \<Rightarrow> error + string"

definition get_display :: "(int \<times> string) list \<Rightarrow> int \<Rightarrow> pyval" where
  \<comment> \<open>Modelled from the spec: the accessors \<^verbatim>\<open>get_category_display\<close>,
      \<^verbatim>\<open>get_plays_display\<close> and \<^verbatim>\<open>get_role_display\<close> are generated by the framework
      from the \<^verbatim>\<open>choices\<close> of the field ("stored as small integers, displayed via a
      lookup table"); a stored value with no entry in the table is handed back as it is.\<close>
  "get_display choices v = (case map_of choices v of Some label \<Rightarrow> PStr label | None \<Rightarrow> PInt v)"

text \<open>
  \<^verbatim>\<open>str(v)\<close> of an integer is its decimal numeral, with a minus sign when negative.
\<close>

definition digit :: "nat \<Rightarrow> char" where
  "digit n = ''0123456789'' ! n"

function str_nat :: "nat \<Rightarrow> string" where
  "str_nat n = (if n < 10 then [digit n] else str_nat (n div 10) @ [digit (n mod 10)])"
  by pat_completeness auto
termination
  by (relation "measure id") auto

declare str_nat.simps [simp del]

definition str_int :: "int \<Rightarrow> string" where
  "str_int i = (if i < 0 then CHR ''-'' # str_nat (nat (- i)) else str_nat (nat i))"

text \<open>
  The two functions below are the parts of \<open>flatten_dict\<close>: the string made of a value
  inside a nested mapping, and what becomes of a value of the mapping itself.
\<close>

fun str_value :: "pyval \<Rightarrow> string" where
  "str_value (PStr s) = s"
| "str_value (PInt i) = str_int i"
| "str_value (PBool b) = (if b then ''True'' else ''False'')"
| "str_value (PDict d) = join SEP (map (\<lambda>kv. str_value (snd kv)) d)"

fun flatten_value :: "pyval \<Rightarrow> pyval" where
  "flatten_value (PDict d) = PStr (join SEP (map (\<lambda>kv. str_value (snd kv)) d))"
| "flatten_value v = v"

definition flatten_dict :: "ordered_dict \<Rightarrow> ordered_dict" where
  \<comment> \<open>Modelled from the spec: \<^verbatim>\<open>flatten_dict\<close> of django_jinja_knockout.tpl, which is not
      part of the repository, as called with \<^verbatim>\<open>enclosure_fmt=None\<close>: the "flattened
      display mapping" keeps every key in order and replaces a nested mapping by its
      "fields joined by a separator", each field as the string that \<^verbatim>\<open>str\<close> makes of
      it; a value that is not a mapping stays as it is.\<close>
  "flatten_dict d = map (\<lambda>(k, v). (k, flatten_value v)) d"

section \<open>The models\<close>

record Model =
  pk :: "int option"

text \<open>
  \<^verbatim>\<open>Str\<close> is a string (the URL) that carries a second string in its attribute
  \<^verbatim>\<open>text\<close>. The attributes \<^verbatim>\<open>text\<close> of \<^verbatim>\<open>Str\<close> and \<^verbatim>\<open>note\<close> of Member are
  written \<open>text'\<close> and \<open>note'\<close>.
\<close>

record Str =
  url :: string
  text' :: string

subsection \<open>Profile\<close>

record Profile = Model +
  first_name :: string
  last_name :: string
  birth_date :: "temporal option"

definition Profile_get_str_fields :: "formatter \<Rightarrow> Profile \<Rightarrow> ordered_dict" where
  "Profile_get_str_fields fmt self =
     [(''first_name'', PStr (first_name self)),
      (''last_name'', PStr (last_name self)),
      (''birth_date'', PStr (fmt (birth_date self)))]"

definition Profile_str :: "Profile \<Rightarrow> string" where
  "Profile_str self = join '' '' [first_name self, last_name self]"

subsection \<open>Manufacturer\<close>

record Manufacturer = Model +
  company_name :: string
  direct_shipping :: bool

definition Manufacturer_get_str_fields :: "Manufacturer \<Rightarrow> ordered_dict" where
  "Manufacturer_get_str_fields self =
     (let str_fields = [(''company_name'', PStr (company_name self))];
          str_fields = setitem str_fields ''direct_shipping''
            (PStr (if direct_shipping self then ''Yes (direct)'' else ''No (remote)''))
      in str_fields)"

subsection \<open>Club\<close>

definition CATEGORY_RECREATIONAL :: int where "CATEGORY_RECREATIONAL = 0"
definition CATEGORY_PROFESSIONAL :: int where "CATEGORY_PROFESSIONAL = 1"

definition Club_CATEGORIES :: "(int \<times> string) list" where
  "Club_CATEGORIES =
     [(CATEGORY_RECREATIONAL, ''Recreational''),
      (CATEGORY_PROFESSIONAL, ''Professional'')]"

record Club = Model +
  title :: string
  category :: int
  foundation_date :: "temporal option"
  last_update :: "temporal option"

definition Club_get_str_fields :: "formatter \<Rightarrow> Club \<Rightarrow> ordered_dict" where
  "Club_get_str_fields fmt self =
     [(''title'', PStr (title self)),
      (''category'', get_display Club_CATEGORIES (Club.category self)),
      (''foundation_date'', PStr (fmt (foundation_date self))),
      (''last_update'', PStr (fmt (last_update self)))]"

definition Club_str :: "formatter \<Rightarrow> Club \<Rightarrow> error + string" where
  "Club_str fmt self = join_values SEP (values_of (Club_get_str_fields fmt self))"

subsection \<open>Equipment\<close>

definition CATEGORY_RACKET :: int where "CATEGORY_RACKET = 0"
definition CATEGORY_BALL :: int where "CATEGORY_BALL = 1"
definition CATEGORY_SHUTTLECOCK :: int where "CATEGORY_SHUTTLECOCK = 2"
definition CATEGORY_OTHER :: int where "CATEGORY_OTHER = 3"

definition Equipment_CATEGORIES :: "(int \<times> string) list" where
  "Equipment_CATEGORIES =
     [(CATEGORY_RACKET, ''Racket''),
      (CATEGORY_BALL, ''Ball''),
      (CATEGORY_SHUTTLECOCK, ''Shuttlecock''),
      (CATEGORY_OTHER, ''Other type'')]"

record Equipment = Model +
  club :: Club
  manufacturer :: "Manufacturer option"
  inventory_name :: string
  category :: int

definition Equipment_get_str_fields :: "formatter \<Rightarrow> Equipment \<Rightarrow> ordered_dict" where
  "Equipment_get_str_fields fmt self =
     (let str_fields = [(''club'', PDict (Club_get_str_fields fmt (Equipment.club self)))];
          str_fields = (case manufacturer self of
             Some m \<Rightarrow> setitem str_fields ''manufacturer'' (PDict (Manufacturer_get_str_fields m))
           | None \<Rightarrow> str_fields);
          str_fields = setitem str_fields ''inventory_name'' (PStr (inventory_name self));
          str_fields = setitem str_fields ''category''
            (get_display Equipment_CATEGORIES (Equipment.category self))
      in str_fields)"

subsection \<open>Member\<close>

definition SPORT_BADMINTON :: int where "SPORT_BADMINTON = 0"
definition SPORT_TENNIS :: int where "SPORT_TENNIS = 1"
definition SPORT_TABLE_TENNIS :: int where "SPORT_TABLE_TENNIS = 2"
definition SPORT_SQUASH :: int where "SPORT_SQUASH = 3"
definition SPORT_ANOTHER :: int where "SPORT_ANOTHER = 4"

definition BASIC_SPORTS :: "(int \<times> string) list" where
  "BASIC_SPORTS =
     [(SPORT_BADMINTON, ''Badminton''),
      (SPORT_TENNIS, ''Tennis''),
      (SPORT_TABLE_TENNIS, ''Table tennis'')]"

definition SPORTS :: "(int \<times> string) list" where
  "SPORTS = BASIC_SPORTS @
     [(SPORT_SQUASH, ''Squash''),
      (SPORT_ANOTHER, ''Another sport'')]"

definition ROLE_OWNER :: int where "ROLE_OWNER = 0"
definition ROLE_FOUNDER :: int where "ROLE_FOUNDER = 1"
definition ROLE_MEMBER :: int where "ROLE_MEMBER = 2"

definition ROLES :: "(int \<times> string) list" where
  "ROLES =
     [(ROLE_OWNER, ''Owner''),
      (ROLE_FOUNDER, ''Founder''),
      (ROLE_MEMBER, ''Member'')]"

record Member = Model +
  profile :: Profile
  club :: Club
  last_visit :: "temporal option"
  plays :: int
  role :: int
  note' :: string
  is_endorsed :: bool

definition Member_get_str_fields :: "formatter \<Rightarrow> Member \<Rightarrow> ordered_dict" where
  "Member_get_str_fields fmt self =
     (let parts =
        [(''profile'', PDict (Profile_get_str_fields fmt (profile self))),
         (''club'', PDict (Club_get_str_fields fmt (Member.club self))),
         (''last_visit'', PStr (fmt (last_visit self))),
         (''plays'', get_display SPORTS (plays self)),
         (''role'', get_display ROLES (role self)),
         (''is_endorsed'', PStr (if is_endorsed self then ''endorsed'' else ''unofficial''))]
      in parts)"

definition Member_get_absolute_url :: "resolver \<Rightarrow> formatter \<Rightarrow> Member \<Rightarrow> error + Str" where
  "Member_get_absolute_url reverse fmt self =
     (case reverse ''member_detail'' [(''member_id'', pk self)] of Inl e \<Rightarrow> Inl e
      | Inr u \<Rightarrow>
     (let str_fields = flatten_dict (Member_get_str_fields fmt self) in
      case getitem str_fields ''profile'' of Inl e \<Rightarrow> Inl e
      | Inr p \<Rightarrow>
     (case getitem str_fields ''club'' of Inl e \<Rightarrow> Inl e
      | Inr c \<Rightarrow>
     (case join_values '' / '' [p, c] of Inl e \<Rightarrow> Inl e
      | Inr t \<Rightarrow> Inr \<lparr>url = u, text' = t\<rparr>))))"

definition Member_str :: "(ordered_dict \<Rightarrow> error + string) \<Rightarrow> formatter \<Rightarrow> Member \<Rightarrow> error + string" where
  \<comment> \<open>\<^verbatim>\<open>str_dict\<close> is the imported helper, taken as it comes.\<close>
  "Member_str str_dict fmt self = (let str_fields = Member_get_str_fields fmt self in str_dict str_fields)"

section \<open>The routing table of djk_sample/urls.py\<close>

definition urlpatterns :: "string list" where
  \<comment> \<open>The names that \<^verbatim>\<open>urlpatterns\<close> gives to its routes, in order. The patterns of
      the JavaScript catalog and of the static files carry no name, and the routes
      included under \<^verbatim>\<open>^accounts/\<close> are the account pages of the external account
      subsystem.\<close>
  "urlpatterns = [''club_main_page'', ''club_create'', ''manufacturer_fk_widget_grid'']"

definition djk_sample_reverse :: "resolver \<Rightarrow> resolver" where
  \<comment> \<open>Modelled from the spec: the resolver of the framework over the "static table"
      that "maps URL patterns to handlers". A view name that no route of the table
      carries raises NoReverseMatch; for a name of the table, \<open>build\<close> is what the
      framework makes of the pattern and the keyword arguments.\<close>
  "djk_sample_reverse build viewname kwargs =
     (if viewname \<in> set urlpatterns then build viewname kwargs else Inl NoReverseMatch)"

section \<open>Persistence\<close>

text \<open>
  \<^verbatim>\<open>timezone.now()\<close> reads the system clock. The clock is the sequence of the
  instants that the coming calls will return: \<open>clk 0\<close> is the current one.
\<close>

type_synonym clock = "nat \<Rightarrow> int"

definition timezone_now :: "clock \<Rightarrow> temporal \<times> clock" where
  "timezone_now clk = (DateTime (clk 0), \<lambda>n. clk (Suc n))"

record database =
  profiles :: "Profile list"
  manufacturers :: "Manufacturer list"
  clubs :: "Club list"
  equipments :: "Equipment list"
  members :: "Member list"

definition next_pk :: "'a Model_scheme list \<Rightarrow> int" where
  "next_pk rows = foldr (\<lambda>r k. case pk r of None \<Rightarrow> k | Some j \<Rightarrow> max j k) rows 0 + 1"

definition has_pk :: "'a Model_scheme list \<Rightarrow> int option \<Rightarrow> bool" where
  "has_pk rows k = (k \<noteq> None \<and> list_ex (\<lambda>r. pk r = k) rows)"

definition Model_save ::
  "('a Model_scheme \<Rightarrow> 'a Model_scheme \<Rightarrow> bool) \<Rightarrow> 'a Model_scheme list \<Rightarrow> 'a Model_scheme \<Rightarrow>
     error + 'a Model_scheme list \<times> 'a Model_scheme" where
  \<comment> \<open>Modelled from the spec: the \<^verbatim>\<open>save\<close> of the framework's base class, which is not
      part of the repository. An object without primary key is inserted under a fresh
      key, an object with one replaces the row of that key or is inserted under it;
      the unique index of the table (\<open>same_key\<close>) is "enforced at the persistence
      boundary" and its violation is the conflict error. The columns are taken to
      hold the attributes of the object as they are: the range, the length and the
      conversion that a storage backend applies to a column are outside this model.\<close>
  "Model_save same_key rows self =
     (case pk self of
        None \<Rightarrow>
          if list_ex (\<lambda>r. same_key r self) rows then Inl IntegrityError
          else (let self = self\<lparr>pk := Some (next_pk rows)\<rparr> in Inr (rows @ [self], self))
      | Some k \<Rightarrow>
          if list_ex (\<lambda>r. pk r \<noteq> Some k \<and> same_key r self) rows then Inl IntegrityError
          else if has_pk rows (Some k)
            then Inr (map (\<lambda>r. if pk r = Some k then self else r) rows, self)
            else Inr (rows @ [self], self))"

definition IntegerField_safe :: "int \<Rightarrow> bool" where
  \<comment> \<open>Modelled from the spec: the enumerations are "stored as small integers". The
      values of 32 bits are the ones that every storage backend of the framework
      holds in the column of an IntegerField; what a backend does with a larger one is
      not part of \<open>Model_save\<close>.\<close>
  "IntegerField_safe v = (- 2147483648 \<le> v \<and> v \<le> 2147483647)"

definition same_title :: "Club \<Rightarrow> Club \<Rightarrow> bool" where
  \<comment> \<open>\<^verbatim>\<open>title = models.CharField(max_length=64, unique=True, ...)\<close>\<close>
  "same_title r self = (title r = title self)"

definition same_profile_and_club :: "Member \<Rightarrow> Member \<Rightarrow> bool" where
  \<comment> \<open>\<^verbatim>\<open>unique_together = ('profile', 'club')\<close>\<close>
  "same_profile_and_club r self =
     (pk (profile r) = pk (profile self) \<and> pk (Member.club r) = pk (Member.club self))"

definition Club_save :: "Club \<Rightarrow> clock \<Rightarrow> database \<Rightarrow> (error + unit) \<times> Club \<times> clock \<times> database" where
  \<comment> \<open>The object is changed in place before \<^verbatim>\<open>super().save()\<close> runs, so the
      result carries the object also when the base class raises.\<close>
  "Club_save self clk db =
     (let (self, clk) =
        (if pk self = None then
           (let (self, clk) =
              (if foundation_date self = None then
                 (let (now, clk) = timezone_now clk in (self\<lparr>foundation_date := Some now\<rparr>, clk))
               else (self, clk));
              (now, clk) = timezone_now clk
            in (self\<lparr>last_update := Some now\<rparr>, clk))
         else (self, clk))
      in case Model_save same_title (clubs db) self of
           Inl e \<Rightarrow> (Inl e, self, clk, db)
         | Inr (rows, self) \<Rightarrow> (Inr (), self, clk, db\<lparr>clubs := rows\<rparr>))"

fun Club_edit_and_save ::
  "(string \<times> int) list \<Rightarrow> Club \<Rightarrow> clock \<Rightarrow> database \<Rightarrow> Club \<times> clock \<times> database" where
  \<comment> \<open>A run of edits of one Club object: each assigns a title and a category and saves;
      a save that raises leaves the database as it was and the run goes on.\<close>
  "Club_edit_and_save [] self clk db = (self, clk, db)"
| "Club_edit_and_save ((t, c) # edits) self clk db =
     (case Club_save (self\<lparr>title := t, Club.category := c\<rparr>) clk db of
        (r, self, clk, db) \<Rightarrow> Club_edit_and_save edits self clk db)"

definition Member_save :: "Member \<Rightarrow> database \<Rightarrow> (error + unit) \<times> Member \<times> database" where
  \<comment> \<open>Modelled from the spec: Member has no \<^verbatim>\<open>save\<close> of its own, this is the base
      class's, with the foreign keys of the table: the Profile and the Club referred to
      must be rows of their tables.\<close>
  "Member_save self db =
     (if \<not> has_pk (profiles db) (pk (profile self)) \<or> \<not> has_pk (clubs db) (pk (Member.club self))
      then (Inl IntegrityError, self, db)
      else case Model_save same_profile_and_club (members db) self of
           Inl e \<Rightarrow> (Inl e, self, db)
         | Inr (rows, self) \<Rightarrow> (Inr (), self, db\<lparr>members := rows\<rparr>))"

definition Equipment_save :: "Equipment \<Rightarrow> database \<Rightarrow> (error + unit) \<times> Equipment \<times> database" where
  \<comment> \<open>Modelled from the spec: Equipment has no \<^verbatim>\<open>save\<close> of its own either; the table
      has no unique index, and the Club and the Manufacturer referred to, if any, must
      be rows of their tables.\<close>
  "Equipment_save self db =
     (if \<not> has_pk (clubs db) (pk (Equipment.club self)) \<or>
         (case manufacturer self of None \<Rightarrow> False | Some m \<Rightarrow> \<not> has_pk (manufacturers db) (pk m))
      then (Inl IntegrityError, self, db)
      else case Model_save (\<lambda>r s. False) (equipments db) self of
           Inl e \<Rightarrow> (Inl e, self, db)
         | Inr (rows, self) \<Rightarrow> (Inr (), self, db\<lparr>equipments := rows\<rparr>))"

datatype on_delete = CASCADE | PROTECT | DO_NOTHING

definition Equipment_club_on_delete :: on_delete where
  "Equipment_club_on_delete = CASCADE"

definition Equipment_manufacturer_on_delete :: on_delete where
  "Equipment_manufacturer_on_delete = CASCADE"

definition Member_profile_on_delete :: on_delete where
  "Member_profile_on_delete = CASCADE"

definition Member_club_on_delete :: on_delete where
  "Member_club_on_delete = CASCADE"

definition collect :: "on_delete \<Rightarrow> ('r \<Rightarrow> bool) \<Rightarrow> 'r list \<Rightarrow> error + 'r list" where
  \<comment> \<open>Modelled from the spec: what the deletion of a row does to the rows of a table
      that refer to it, by the \<^verbatim>\<open>on_delete\<close> of the foreign key: "cascade delete:
      automatic removal of dependent records when their owning record is deleted".\<close>
  "collect policy refers rows =
     (case policy of
        CASCADE \<Rightarrow> Inr (filter (\<lambda>r. \<not> refers r) rows)
      | PROTECT \<Rightarrow> if list_ex refers rows then Inl ProtectedError else Inr rows
      | DO_NOTHING \<Rightarrow> Inr rows)"

definition Club_delete :: "int \<Rightarrow> database \<Rightarrow> error + database" where
  \<comment> \<open>Modelled from the spec: the framework's \<^verbatim>\<open>delete\<close> for the Club of primary key
      \<open>k\<close>; Equipment.club and Member.club are the foreign keys to Club.\<close>
  "Club_delete k db =
     (case collect Equipment_club_on_delete (\<lambda>e. pk (Equipment.club e) = Some k) (equipments db) of
        Inl e \<Rightarrow> Inl e
      | Inr es \<Rightarrow>
     (case collect Member_club_on_delete (\<lambda>m. pk (Member.club m) = Some k) (members db) of
        Inl e \<Rightarrow> Inl e
      | Inr ms \<Rightarrow>
        Inr (db\<lparr>clubs := filter (\<lambda>c. pk c \<noteq> Some k) (clubs db), equipments := es, members := ms\<rparr>)))"

definition Manufacturer_delete :: "int \<Rightarrow> database \<Rightarrow> error + database" where
  \<comment> \<open>Modelled from the spec: as \<open>Club_delete\<close>; Equipment.manufacturer is the foreign
      key to Manufacturer.\<close>
  "Manufacturer_delete k db =
     (case collect Equipment_manufacturer_on_delete
        (\<lambda>e. case manufacturer e of None \<Rightarrow> False | Some m \<Rightarrow> pk m = Some k) (equipments db) of
        Inl e \<Rightarrow> Inl e
      | Inr es \<Rightarrow>
        Inr (db\<lparr>manufacturers := filter (\<lambda>m. pk m \<noteq> Some k) (manufacturers db), equipments := es\<rparr>))"

definition Profile_delete :: "int \<Rightarrow> database \<Rightarrow> error + database" where
  \<comment> \<open>Modelled from the spec: as \<open>Club_delete\<close>; Member.profile is the foreign key to
      Profile.\<close>
  "Profile_delete k db =
     (case collect Member_profile_on_delete (\<lambda>m. pk (profile m) = Some k) (members db) of
        Inl e \<Rightarrow> Inl e
      | Inr ms \<Rightarrow>
        Inr (db\<lparr>profiles := filter (\<lambda>p. pk p \<noteq> Some k) (profiles db), members := ms\<rparr>))"

text \<open>
  The invariants of the tables: primary keys and unique indexes hold no value twice,
  and every foreign key of a row is the primary key of a row of the table referred to.
\<close>

definition unique_titles :: "database \<Rightarrow> bool" where
  "unique_titles db = (distinct (map pk (clubs db)) \<and> distinct (map title (clubs db)))"

definition unique_pairs :: "database \<Rightarrow> bool" where
  "unique_pairs db =
     (distinct (map pk (members db)) \<and>
      distinct (map (\<lambda>m. (pk (profile m), pk (Member.club m))) (members db)))"

definition fk_ok :: "database \<Rightarrow> bool" where
  "fk_ok db =
     (list_all (\<lambda>e. has_pk (clubs db) (pk (Equipment.club e)) \<and>
          (case manufacturer e of None \<Rightarrow> True | Some m \<Rightarrow> has_pk (manufacturers db) (pk m)))
        (equipments db) \<and>
      list_all (\<lambda>m. has_pk (profiles db) (pk (profile m)) \<and> has_pk (clubs db) (pk (Member.club m)))
        (members db))"

section \<open>Sample data\<close>

text \<open>
  Concrete inputs for the examples below, after the examples of the specification: a
  formatter, a URL resolver for a routing table that has the route
  \<^verbatim>\<open>member_detail\<close> (the table of djk_sample/urls.py has not), the making of a URL
  for a route of a table, and rows of each kind.
\<close>

definition example_fmt :: formatter where
  "example_fmt v = (case v of None \<Rightarrow> [] | Some (Date d) \<Rightarrow> ''day'' | Some (DateTime t) \<Rightarrow> ''instant'')"

definition example_reverse :: resolver where
  "example_reverse viewname kwargs =
     (if viewname = ''member_detail'' then Inr ''/member-detail/'' else Inl NoReverseMatch)"

definition example_build :: resolver where
  "example_build viewname kwargs = Inr (''/'' @ viewname @ ''/'')"

definition riverside :: Club where
  "riverside = \<lparr>pk = Some 1, title = ''Riverside Badminton'',
     Club.category = CATEGORY_RECREATIONAL,
     foundation_date = Some (Date 737425), last_update = Some (DateTime 1577836800)\<rparr>"

definition example_profile :: Profile where
  "example_profile = \<lparr>pk = Some 1, first_name = ''Ann'', last_name = ''Lee'',
     birth_date = Some (Date 726468)\<rparr>"

definition example_manufacturer :: Manufacturer where
  "example_manufacturer = \<lparr>pk = Some 1, company_name = ''Acme'', direct_shipping = True\<rparr>"

definition racket_a :: Equipment where
  "racket_a = \<lparr>pk = Some 1, Equipment.club = riverside, manufacturer = None,
     inventory_name = ''Racket A'', Equipment.category = CATEGORY_RACKET\<rparr>"

definition example_member :: Member where
  "example_member = \<lparr>pk = Some 1, profile = example_profile, Member.club = riverside,
     last_visit = Some (DateTime 1577836800), plays = SPORT_BADMINTON, role = ROLE_MEMBER,
     note' = ''left-handed'', is_endorsed = False\<rparr>"

definition example_clock :: clock where
  "example_clock n = 1577836800 + int n"

definition empty_db :: database where
  "empty_db = \<lparr>profiles = [], manufacturers = [], clubs = [], equipments = [], members = []\<rparr>"

definition shuttle_b :: Equipment where
  "shuttle_b = \<lparr>pk = Some 2, Equipment.club = riverside, manufacturer = Some example_manufacturer,
     inventory_name = ''Shuttle B'', Equipment.category = CATEGORY_SHUTTLECOCK\<rparr>"

definition example_db :: database where
  "example_db = \<lparr>profiles = [example_profile], manufacturers = [example_manufacturer],
     clubs = [riverside], equipments = [racket_a, shuttle_b], members = [example_member]\<rparr>"

definition new_club :: Club where
  "new_club = \<lparr>pk = None, title = ''Riverside Badminton'',
     Club.category = CATEGORY_RECREATIONAL, foundation_date = None, last_update = None\<rparr>"

section \<open>Display mappings\<close>

lemma getitem_setitem:
  "getitem (setitem d k v) k' = (if k' = k then Inr v else getitem d k')"
  by (simp add: getitem_def setitem_def update_conv')

lemma get_display_cases: "(\<exists>l. get_display t v = PStr l) \<or> get_display t v = PInt v"
  by (auto simp: get_display_def split: option.splits)

lemma has_bool_get_display: "\<not> has_bool (get_display t v)"
  using get_display_cases[of t v] by auto

lemma Equipment_fields_unset:
  "manufacturer e = None \<Longrightarrow>
     Equipment_get_str_fields fmt e =
       [(''club'', PDict (Club_get_str_fields fmt (Equipment.club e))),
        (''inventory_name'', PStr (inventory_name e)),
        (''category'', get_display Equipment_CATEGORIES (Equipment.category e))]"
  by (simp add: Equipment_get_str_fields_def setitem_def)

lemma Equipment_fields_set:
  "manufacturer e = Some m \<Longrightarrow>
     Equipment_get_str_fields fmt e =
       [(''club'', PDict (Club_get_str_fields fmt (Equipment.club e))),
        (''manufacturer'', PDict (Manufacturer_get_str_fields m)),
        (''inventory_name'', PStr (inventory_name e)),
        (''category'', get_display Equipment_CATEGORIES (Equipment.category e))]"
  by (simp add: Equipment_get_str_fields_def setitem_def)

text \<open>
  C5. An Equipment without manufacturer has a display mapping with the keys club,
  inventory_name, category and looking "manufacturer" up raises KeyError: the key is
  absent, not bound to an empty value. With a manufacturer the keys are club,
  manufacturer, inventory_name, category, and "manufacturer" is bound to the whole
  display mapping of the manufacturer.
\<close>

theorem Equipment_manufacturer_key:
  "(manufacturer e = None \<longrightarrow>
      keys (Equipment_get_str_fields fmt e) = [''club'', ''inventory_name'', ''category''] \<and>
      getitem (Equipment_get_str_fields fmt e) ''manufacturer'' = Inl KeyError) \<and>
   (manufacturer e = Some m \<longrightarrow>
      keys (Equipment_get_str_fields fmt e) =
        [''club'', ''manufacturer'', ''inventory_name'', ''category''] \<and>
      getitem (Equipment_get_str_fields fmt e) ''manufacturer'' =
        Inr (PDict (Manufacturer_get_str_fields m)))"
proof (intro conjI impI)
  assume n: "manufacturer e = None"
  show "keys (Equipment_get_str_fields fmt e) = [''club'', ''inventory_name'', ''category'']"
    by (simp add: Equipment_fields_unset[OF n] keys_def)
  show "getitem (Equipment_get_str_fields fmt e) ''manufacturer'' = Inl KeyError"
    by (simp add: Equipment_fields_unset[OF n] getitem_def)
next
  assume s: "manufacturer e = Some m"
  show "keys (Equipment_get_str_fields fmt e) =
      [''club'', ''manufacturer'', ''inventory_name'', ''category'']"
    by (simp add: Equipment_fields_set[OF s] keys_def)
  show "getitem (Equipment_get_str_fields fmt e) ''manufacturer'' =
      Inr (PDict (Manufacturer_get_str_fields m))"
    by (simp add: Equipment_fields_set[OF s] getitem_def)
qed

theorem Equipment_manufacturer_key_witness:
  "manufacturer racket_a = None \<and>
   keys (Equipment_get_str_fields example_fmt racket_a) = [''club'', ''inventory_name'', ''category''] \<and>
   getitem (Equipment_get_str_fields example_fmt racket_a) ''manufacturer'' = Inl KeyError \<and>
   manufacturer (racket_a\<lparr>manufacturer := Some example_manufacturer\<rparr>) = Some example_manufacturer \<and>
   keys (Equipment_get_str_fields example_fmt (racket_a\<lparr>manufacturer := Some example_manufacturer\<rparr>)) =
     [''club'', ''manufacturer'', ''inventory_name'', ''category''] \<and>
   getitem (Equipment_get_str_fields example_fmt (racket_a\<lparr>manufacturer := Some example_manufacturer\<rparr>))
     ''manufacturer'' =
     Inr (PDict [(''company_name'', PStr ''Acme''), (''direct_shipping'', PStr ''Yes (direct)'')])"
proof -
  have n: "manufacturer racket_a = None"
    by (simp add: racket_a_def)
  have s: "manufacturer (racket_a\<lparr>manufacturer := Some example_manufacturer\<rparr>) = Some example_manufacturer"
    by simp
  have m: "Manufacturer_get_str_fields example_manufacturer =
      [(''company_name'', PStr ''Acme''), (''direct_shipping'', PStr ''Yes (direct)'')]"
    by (simp add: Manufacturer_get_str_fields_def example_manufacturer_def setitem_def)
  show ?thesis
    using Equipment_manufacturer_key[of racket_a example_fmt example_manufacturer]
      Equipment_manufacturer_key[of "racket_a\<lparr>manufacturer := Some example_manufacturer\<rparr>"
        example_fmt example_manufacturer]
      n s m
    by simp
qed

text \<open>
  C6. The display mapping of an Equipment binds "club" to the display mapping of its
  Club, and the display mapping of a Member binds "profile" and "club" to the display
  mappings of its Profile and of its Club: the nested value is the whole mapping, not
  an identifier. The keys of the nested mappings and of the composite mappings come in
  the order in which the fields are declared.
\<close>

theorem nested_display_mappings:
  "getitem (Equipment_get_str_fields fmt e) ''club'' =
     Inr (PDict (Club_get_str_fields fmt (Equipment.club e))) \<and>
   getitem (Member_get_str_fields fmt m) ''profile'' =
     Inr (PDict (Profile_get_str_fields fmt (profile m))) \<and>
   getitem (Member_get_str_fields fmt m) ''club'' =
     Inr (PDict (Club_get_str_fields fmt (Member.club m))) \<and>
   keys (Profile_get_str_fields fmt p) = [''first_name'', ''last_name'', ''birth_date''] \<and>
   keys (Club_get_str_fields fmt c) =
     [''title'', ''category'', ''foundation_date'', ''last_update''] \<and>
   keys (Manufacturer_get_str_fields mf) = [''company_name'', ''direct_shipping''] \<and>
   keys (Equipment_get_str_fields fmt e) =
     (if manufacturer e = None then [''club'', ''inventory_name'', ''category'']
      else [''club'', ''manufacturer'', ''inventory_name'', ''category'']) \<and>
   keys (Member_get_str_fields fmt m) =
     [''profile'', ''club'', ''last_visit'', ''plays'', ''role'', ''is_endorsed'']"
proof -
  have "getitem (Equipment_get_str_fields fmt e) ''club'' =
      Inr (PDict (Club_get_str_fields fmt (Equipment.club e)))"
    by (cases "manufacturer e")
       (simp_all add: Equipment_fields_unset Equipment_fields_set getitem_def)
  moreover have "keys (Equipment_get_str_fields fmt e) =
     (if manufacturer e = None then [''club'', ''inventory_name'', ''category'']
      else [''club'', ''manufacturer'', ''inventory_name'', ''category''])"
    by (cases "manufacturer e")
       (simp_all add: Equipment_fields_unset Equipment_fields_set keys_def)
  moreover have "keys (Manufacturer_get_str_fields mf) = [''company_name'', ''direct_shipping'']"
    by (simp add: Manufacturer_get_str_fields_def setitem_def keys_def)
  ultimately show ?thesis
    by (simp add: Member_get_str_fields_def Profile_get_str_fields_def Club_get_str_fields_def
        getitem_def keys_def)
qed

text \<open>
  C8. The display mapping of a Manufacturer binds "direct_shipping" to the string
  "Yes (direct)" when the flag is true and to "No (remote)" when it is false; that of a
  Member binds "is_endorsed" to "endorsed" or "unofficial". No display mapping of the
  five models holds a boolean, at any depth.
\<close>

theorem boolean_rendering:
  "getitem (Manufacturer_get_str_fields mf) ''direct_shipping'' =
     Inr (PStr (if direct_shipping mf then ''Yes (direct)'' else ''No (remote)'')) \<and>
   getitem (Member_get_str_fields fmt m) ''is_endorsed'' =
     Inr (PStr (if is_endorsed m then ''endorsed'' else ''unofficial'')) \<and>
   \<not> has_bool (PDict (Profile_get_str_fields fmt p)) \<and>
   \<not> has_bool (PDict (Manufacturer_get_str_fields mf)) \<and>
   \<not> has_bool (PDict (Club_get_str_fields fmt c)) \<and>
   \<not> has_bool (PDict (Equipment_get_str_fields fmt e)) \<and>
   \<not> has_bool (PDict (Member_get_str_fields fmt m))"
proof -
  have mf: "\<not> has_bool (PDict (Manufacturer_get_str_fields x))" for x
    by (simp add: Manufacturer_get_str_fields_def setitem_def)
  have c: "\<not> has_bool (PDict (Club_get_str_fields fmt x))" for x
    by (simp add: Club_get_str_fields_def has_bool_get_display)
  have p: "\<not> has_bool (PDict (Profile_get_str_fields fmt x))" for x
    by (simp add: Profile_get_str_fields_def)
  have e: "\<not> has_bool (PDict (Equipment_get_str_fields fmt e))"
  proof (cases "manufacturer e")
    case None
    then show ?thesis
      using c[of "Equipment.club e"] by (simp add: Equipment_fields_unset has_bool_get_display)
  next
    case (Some x)
    then show ?thesis
      using c[of "Equipment.club e"] mf[of x]
      by (simp add: Equipment_fields_set has_bool_get_display)
  qed
  have m: "\<not> has_bool (PDict (Member_get_str_fields fmt m))"
    using c[of "Member.club m"] p[of "profile m"]
    by (simp add: Member_get_str_fields_def has_bool_get_display)
  have d: "getitem (Manufacturer_get_str_fields mf) ''direct_shipping'' =
      Inr (PStr (if direct_shipping mf then ''Yes (direct)'' else ''No (remote)''))"
    by (simp add: Manufacturer_get_str_fields_def getitem_setitem)
  have i: "getitem (Member_get_str_fields fmt m) ''is_endorsed'' =
      Inr (PStr (if is_endorsed m then ''endorsed'' else ''unofficial''))"
    by (simp add: Member_get_str_fields_def getitem_def)
  from d i p mf c e m show ?thesis by blast
qed

text \<open>
  C10. The display mapping of a Member has the keys profile, club, last_visit, plays,
  role, is_endorsed, in this order, so "note" is not one of them; and the mapping, the
  summary string and the canonical reference computed from it are the same whatever
  the note of the Member is.
\<close>

theorem Member_display_without_note:
  "keys (Member_get_str_fields fmt m) =
     [''profile'', ''club'', ''last_visit'', ''plays'', ''role'', ''is_endorsed''] \<and>
   ''note'' \<notin> set (keys (Member_get_str_fields fmt m)) \<and>
   Member_get_str_fields fmt (m\<lparr>note' := n\<rparr>) = Member_get_str_fields fmt m \<and>
   Member_str str_dict fmt (m\<lparr>note' := n\<rparr>) = Member_str str_dict fmt m \<and>
   Member_get_absolute_url reverse fmt (m\<lparr>note' := n\<rparr>) = Member_get_absolute_url reverse fmt m"
proof -
  have k: "keys (Member_get_str_fields fmt m) =
      [''profile'', ''club'', ''last_visit'', ''plays'', ''role'', ''is_endorsed'']"
    by (simp add: Member_get_str_fields_def keys_def)
  have f: "Member_get_str_fields fmt (m\<lparr>note' := n\<rparr>) = Member_get_str_fields fmt m"
    by (simp add: Member_get_str_fields_def)
  have s: "Member_str str_dict fmt (m\<lparr>note' := n\<rparr>) = Member_str str_dict fmt m"
    by (simp add: Member_str_def f)
  have u: "Member_get_absolute_url reverse fmt (m\<lparr>note' := n\<rparr>) =
      Member_get_absolute_url reverse fmt m"
    unfolding Member_get_absolute_url_def f by simp
  from k f s u show ?thesis by simp
qed

section \<open>Canonical labels\<close>

lemma flatten_get_display: "flatten_value (get_display t v) = get_display t v"
  using get_display_cases[of t v] by auto

lemma flatten_Member:
  "flatten_dict (Member_get_str_fields fmt m) =
     [(''profile'', PStr (first_name (profile m) @ SEP @ last_name (profile m) @ SEP @
         fmt (birth_date (profile m)))),
      (''club'', PStr (title (Member.club m) @ SEP @
         str_value (get_display Club_CATEGORIES (Club.category (Member.club m))) @ SEP @
         fmt (foundation_date (Member.club m)) @ SEP @ fmt (last_update (Member.club m)))),
      (''last_visit'', PStr (fmt (last_visit m))),
      (''plays'', get_display SPORTS (plays m)),
      (''role'', get_display ROLES (role m)),
      (''is_endorsed'', PStr (if is_endorsed m then ''endorsed'' else ''unofficial''))]"
  by (simp add: flatten_dict_def Member_get_str_fields_def Profile_get_str_fields_def
      Club_get_str_fields_def flatten_get_display)

lemma Club_str_eq:
  "Club_str fmt c = (case map_of Club_CATEGORIES (Club.category c) of
      None \<Rightarrow> Inl TypeError
    | Some l \<Rightarrow> Inr (title c @ SEP @ l @ SEP @ fmt (foundation_date c) @ SEP @ fmt (last_update c)))"
  by (simp add: Club_str_def Club_get_str_fields_def join_values_def values_of_def
      get_display_def split: option.splits)

lemma Club_str_entry:
  assumes "Club_str fmt c = Inr cs"
  shows "cs = title c @ SEP @ str_value (get_display Club_CATEGORIES (Club.category c)) @ SEP @
      fmt (foundation_date c) @ SEP @ fmt (last_update c)"
  using assms by (auto simp: Club_str_eq get_display_def split: option.splits)

lemma Member_url_eq:
  "Member_get_absolute_url reverse fmt m =
     (case reverse ''member_detail'' [(''member_id'', pk m)] of
        Inl e \<Rightarrow> Inl e
      | Inr u \<Rightarrow> Inr \<lparr>url = u,
          text' = (first_name (profile m) @ SEP @ last_name (profile m) @ SEP @
              fmt (birth_date (profile m))) @ '' / '' @
            (title (Member.club m) @ SEP @
              str_value (get_display Club_CATEGORIES (Club.category (Member.club m))) @ SEP @
              fmt (foundation_date (Member.club m)) @ SEP @ fmt (last_update (Member.club m)))\<rparr>)"
  by (simp add: Member_get_absolute_url_def flatten_Member getitem_def join_values_def
      split: sum.splits)

lemma sep_join_neq_space_join: "a @ SEP @ b @ SEP @ c \<noteq> a @ '' '' @ b"
proof
  assume "a @ SEP @ b @ SEP @ c = a @ '' '' @ b"
  then have "length (a @ SEP @ b @ SEP @ c) = length (a @ '' '' @ b)" by simp
  then show False by (simp add: SEP_def)
qed

lemma no_member_detail:
  "djk_sample_reverse build ''member_detail'' kwargs = Inl NoReverseMatch"
  by (simp add: djk_sample_reverse_def urlpatterns_def)

lemma example_Club_str:
  "Club_str example_fmt riverside =
     Inr (''Riverside Badminton'' @ SEP @ ''Recreational'' @ SEP @ ''day'' @ SEP @ ''instant'')"
  by (simp add: Club_str_eq riverside_def Club_CATEGORIES_def CATEGORY_RECREATIONAL_def
      CATEGORY_PROFESSIONAL_def example_fmt_def)

lemma example_flattened:
  "flatten_dict (Member_get_str_fields example_fmt example_member) =
     [(''profile'', PStr (''Ann'' @ SEP @ ''Lee'' @ SEP @ ''day'')),
      (''club'', PStr (''Riverside Badminton'' @ SEP @ ''Recreational'' @ SEP @ ''day'' @ SEP @ ''instant'')),
      (''last_visit'', PStr ''instant''), (''plays'', PStr ''Badminton''),
      (''role'', PStr ''Member''), (''is_endorsed'', PStr ''unofficial'')]"
  unfolding flatten_Member
  by (simp add: example_member_def example_profile_def example_fmt_def riverside_def
      get_display_def Club_CATEGORIES_def CATEGORY_RECREATIONAL_def CATEGORY_PROFESSIONAL_def
      SPORTS_def BASIC_SPORTS_def ROLES_def SPORT_BADMINTON_def SPORT_TENNIS_def
      SPORT_TABLE_TENNIS_def SPORT_SQUASH_def SPORT_ANOTHER_def ROLE_OWNER_def ROLE_FOUNDER_def
      ROLE_MEMBER_def)

lemma example_Member_url:
  "Member_get_absolute_url example_reverse example_fmt example_member =
     Inr \<lparr>url = ''/member-detail/'',
          text' = ''Ann'' @ SEP @ ''Lee'' @ SEP @ ''day'' @ '' / '' @
            ''Riverside Badminton'' @ SEP @ ''Recreational'' @ SEP @ ''day'' @ SEP @ ''instant''\<rparr>"
  by (simp add: Member_get_absolute_url_def example_flattened getitem_def join_values_def
      example_reverse_def)

text \<open>
  C4, as the code has it. \<^verbatim>\<open>Member.get_absolute_url\<close> raises what the URL resolver
  raises for the route \<^verbatim>\<open>member_detail\<close>; whenever it returns a reference, the label
  is the "profile" entry of the flattened display mapping of the Member, then
  \<^verbatim>\<open>" / "\<close>, then its "club" entry. The "profile" entry is first name, last name and
  formatted birth date joined by the separator, and is not the Profile's own label
  \<^verbatim>\<open>Profile.__str__\<close>. The "club" entry is the values of the Club's display mapping
  joined by the separator, and is the Club's own label whenever \<^verbatim>\<open>Club.__str__\<close>
  returns one.
\<close>

theorem Member_canonical_label:
  "Member_get_absolute_url reverse fmt m =
     (case reverse ''member_detail'' [(''member_id'', pk m)] of
        Inl e \<Rightarrow> Inl e
      | Inr u \<Rightarrow> Inr \<lparr>url = u,
          text' = (first_name (profile m) @ SEP @ last_name (profile m) @ SEP @
              fmt (birth_date (profile m))) @ '' / '' @
            (title (Member.club m) @ SEP @
              str_value (get_display Club_CATEGORIES (Club.category (Member.club m))) @ SEP @
              fmt (foundation_date (Member.club m)) @ SEP @ fmt (last_update (Member.club m)))\<rparr>) \<and>
   getitem (flatten_dict (Member_get_str_fields fmt m)) ''profile'' =
     Inr (PStr (first_name (profile m) @ SEP @ last_name (profile m) @ SEP @
       fmt (birth_date (profile m)))) \<and>
   getitem (flatten_dict (Member_get_str_fields fmt m)) ''club'' =
     Inr (PStr (title (Member.club m) @ SEP @
       str_value (get_display Club_CATEGORIES (Club.category (Member.club m))) @ SEP @
       fmt (foundation_date (Member.club m)) @ SEP @ fmt (last_update (Member.club m)))) \<and>
   first_name (profile m) @ SEP @ last_name (profile m) @ SEP @ fmt (birth_date (profile m)) \<noteq>
     Profile_str (profile m) \<and>
   (Club_str fmt (Member.club m) = Inr cs \<longrightarrow>
      getitem (flatten_dict (Member_get_str_fields fmt m)) ''club'' = Inr (PStr cs))"
proof (intro conjI impI)
  show "Member_get_absolute_url reverse fmt m =
     (case reverse ''member_detail'' [(''member_id'', pk m)] of
        Inl e \<Rightarrow> Inl e
      | Inr u \<Rightarrow> Inr \<lparr>url = u,
          text' = (first_name (profile m) @ SEP @ last_name (profile m) @ SEP @
              fmt (birth_date (profile m))) @ '' / '' @
            (title (Member.club m) @ SEP @
              str_value (get_display Club_CATEGORIES (Club.category (Member.club m))) @ SEP @
              fmt (foundation_date (Member.club m)) @ SEP @ fmt (last_update (Member.club m)))\<rparr>)"
    by (rule Member_url_eq)
  show "getitem (flatten_dict (Member_get_str_fields fmt m)) ''profile'' =
     Inr (PStr (first_name (profile m) @ SEP @ last_name (profile m) @ SEP @
       fmt (birth_date (profile m))))"
    by (simp add: flatten_Member getitem_def)
  show c: "getitem (flatten_dict (Member_get_str_fields fmt m)) ''club'' =
     Inr (PStr (title (Member.club m) @ SEP @
       str_value (get_display Club_CATEGORIES (Club.category (Member.club m))) @ SEP @
       fmt (foundation_date (Member.club m)) @ SEP @ fmt (last_update (Member.club m))))"
    by (simp add: flatten_Member getitem_def)
  show "first_name (profile m) @ SEP @ last_name (profile m) @ SEP @ fmt (birth_date (profile m)) \<noteq>
     Profile_str (profile m)"
    unfolding Profile_str_def join.simps by (rule sep_join_neq_space_join)
  show "getitem (flatten_dict (Member_get_str_fields fmt m)) ''club'' = Inr (PStr cs)"
    if "Club_str fmt (Member.club m) = Inr cs"
    unfolding c using Club_str_entry[OF that] by simp
qed

theorem Member_canonical_label_witness:
  "Club_str example_fmt (Member.club example_member) =
     Inr (''Riverside Badminton'' @ SEP @ ''Recreational'' @ SEP @ ''day'' @ SEP @ ''instant'') \<and>
   getitem (flatten_dict (Member_get_str_fields example_fmt example_member)) ''club'' =
     Inr (PStr (''Riverside Badminton'' @ SEP @ ''Recreational'' @ SEP @ ''day'' @ SEP @ ''instant'')) \<and>
   getitem (flatten_dict (Member_get_str_fields example_fmt example_member)) ''profile'' =
     Inr (PStr (''Ann'' @ SEP @ ''Lee'' @ SEP @ ''day'')) \<and>
   Member_get_absolute_url (djk_sample_reverse example_build) example_fmt example_member =
     Inl NoReverseMatch"
proof -
  have c: "Club_str example_fmt (Member.club example_member) =
     Inr (''Riverside Badminton'' @ SEP @ ''Recreational'' @ SEP @ ''day'' @ SEP @ ''instant'')"
    by (simp add: example_member_def example_Club_str)
  note t = Member_canonical_label[where reverse = "djk_sample_reverse example_build"
      and fmt = example_fmt and m = example_member
      and cs = "''Riverside Badminton'' @ SEP @ ''Recreational'' @ SEP @ ''day'' @ SEP @ ''instant''"]
  from t c have club: "getitem (flatten_dict (Member_get_str_fields example_fmt example_member)) ''club'' =
     Inr (PStr (''Riverside Badminton'' @ SEP @ ''Recreational'' @ SEP @ ''day'' @ SEP @ ''instant''))"
    by blast
  from t have "getitem (flatten_dict (Member_get_str_fields example_fmt example_member)) ''profile'' =
     Inr (PStr (first_name (profile example_member) @ SEP @ last_name (profile example_member) @ SEP @
       example_fmt (birth_date (profile example_member))))"
    by blast
  then have prof: "getitem (flatten_dict (Member_get_str_fields example_fmt example_member)) ''profile'' =
     Inr (PStr (''Ann'' @ SEP @ ''Lee'' @ SEP @ ''day''))"
    by (simp add: example_member_def example_profile_def example_fmt_def)
  from t have "Member_get_absolute_url (djk_sample_reverse example_build) example_fmt example_member =
     (case djk_sample_reverse example_build ''member_detail'' [(''member_id'', pk example_member)] of
        Inl e \<Rightarrow> Inl e
      | Inr u \<Rightarrow> Inr \<lparr>url = u,
          text' = (first_name (profile example_member) @ SEP @ last_name (profile example_member) @ SEP @
              example_fmt (birth_date (profile example_member))) @ '' / '' @
            (title (Member.club example_member) @ SEP @
              str_value (get_display Club_CATEGORIES (Club.category (Member.club example_member))) @ SEP @
              example_fmt (foundation_date (Member.club example_member)) @ SEP @
              example_fmt (last_update (Member.club example_member)))\<rparr>)"
    by blast
  then have url: "Member_get_absolute_url (djk_sample_reverse example_build) example_fmt example_member =
      Inl NoReverseMatch"
    unfolding no_member_detail by simp
  from c club prof url show ?thesis by blast
qed

text \<open>
  C4, as stated, fails for the sample Member. With the routes of djk_sample/urls.py
  the call raises NoReverseMatch and returns no reference; and the "profile" entry of
  the flattened display mapping, from which the label is made, holds the three display
  fields of the profile, not its own label "Ann Lee".
\<close>

theorem Member_label_counterexample:
  "Member_get_absolute_url (djk_sample_reverse example_build) example_fmt example_member =
     Inl NoReverseMatch \<and>
   getitem (flatten_dict (Member_get_str_fields example_fmt example_member)) ''profile'' =
     Inr (PStr (''Ann'' @ SEP @ ''Lee'' @ SEP @ ''day'')) \<and>
   Profile_str (profile example_member) = ''Ann Lee'' \<and>
   ''Ann'' @ SEP @ ''Lee'' @ SEP @ ''day'' \<noteq> ''Ann Lee''"
proof -
  have r: "Member_get_absolute_url (djk_sample_reverse example_build) example_fmt example_member =
      Inl NoReverseMatch"
    by (simp add: Member_url_eq no_member_detail)
  have f: "getitem (flatten_dict (Member_get_str_fields example_fmt example_member)) ''profile'' =
      Inr (PStr (''Ann'' @ SEP @ ''Lee'' @ SEP @ ''day''))"
    by (simp add: example_flattened getitem_def)
  have p: "Profile_str (profile example_member) = ''Ann Lee''"
    by (simp add: Profile_str_def example_member_def example_profile_def)
  have n: "''Ann'' @ SEP @ ''Lee'' @ SEP @ ''day'' \<noteq> ''Ann Lee''"
    by (simp add: SEP_def)
  from r f p n show ?thesis by blast
qed

text \<open>
  C9. \<^verbatim>\<open>Profile.__str__\<close> is the first name, one space, the last name, and does not
  depend on the birth date. The "profile" entry of the flattened display mapping of a
  Member, which is the part of the canonical label before \<^verbatim>\<open>" / "\<close>, is first name,
  last name and formatted birth date joined by the separator. The two strings differ
  for every Profile.
\<close>

theorem Profile_labels_differ:
  "Profile_str p = first_name p @ '' '' @ last_name p \<and>
   Profile_str (p\<lparr>birth_date := d\<rparr>) = Profile_str p \<and>
   getitem (flatten_dict (Member_get_str_fields fmt m)) ''profile'' =
     Inr (PStr (first_name (profile m) @ SEP @ last_name (profile m) @ SEP @
       fmt (birth_date (profile m)))) \<and>
   (Member_get_absolute_url reverse fmt m = Inr s \<longrightarrow>
      (\<exists>cs. text' s = (first_name (profile m) @ SEP @ last_name (profile m) @ SEP @
        fmt (birth_date (profile m))) @ '' / '' @ cs)) \<and>
   first_name p @ SEP @ last_name p @ SEP @ fmt (birth_date p) \<noteq> Profile_str p"
proof -
  have a: "Profile_str p = first_name p @ '' '' @ last_name p"
    by (simp add: Profile_str_def)
  have b: "Profile_str (p\<lparr>birth_date := d\<rparr>) = Profile_str p"
    by (simp add: Profile_str_def)
  have c: "getitem (flatten_dict (Member_get_str_fields fmt m)) ''profile'' =
     Inr (PStr (first_name (profile m) @ SEP @ last_name (profile m) @ SEP @
       fmt (birth_date (profile m))))"
    by (simp add: flatten_Member getitem_def)
  have d: "\<exists>cs. text' s = (first_name (profile m) @ SEP @ last_name (profile m) @ SEP @
        fmt (birth_date (profile m))) @ '' / '' @ cs" if "Member_get_absolute_url reverse fmt m = Inr s"
    using that by (auto simp: Member_url_eq split: sum.splits)
  have e: "first_name p @ SEP @ last_name p @ SEP @ fmt (birth_date p) \<noteq> Profile_str p"
    unfolding a by (rule sep_join_neq_space_join)
  from a b c d e show ?thesis by blast
qed

theorem Profile_labels_differ_witness:
  "flatten_dict (Member_get_str_fields example_fmt example_member) =
     [(''profile'', PStr (''Ann'' @ SEP @ ''Lee'' @ SEP @ ''day'')),
      (''club'', PStr (''Riverside Badminton'' @ SEP @ ''Recreational'' @ SEP @ ''day'' @ SEP @ ''instant'')),
      (''last_visit'', PStr ''instant''), (''plays'', PStr ''Badminton''),
      (''role'', PStr ''Member''), (''is_endorsed'', PStr ''unofficial'')] \<and>
   Member_get_absolute_url example_reverse example_fmt example_member =
     Inr \<lparr>url = ''/member-detail/'',
          text' = ''Ann'' @ SEP @ ''Lee'' @ SEP @ ''day'' @ '' / '' @
            ''Riverside Badminton'' @ SEP @ ''Recreational'' @ SEP @ ''day'' @ SEP @ ''instant''\<rparr> \<and>
   Profile_str (profile example_member) = ''Ann Lee'' \<and>
   ''Ann'' @ SEP @ ''Lee'' @ SEP @ ''day'' \<noteq> Profile_str (profile example_member)"
proof -
  have v: "first_name (profile example_member) = ''Ann'' \<and>
      last_name (profile example_member) = ''Lee'' \<and>
      example_fmt (birth_date (profile example_member)) = ''day''"
    by (simp add: example_member_def example_profile_def example_fmt_def)
  show ?thesis
    using Profile_labels_differ[where p = "profile example_member" and fmt = example_fmt
        and m = example_member and reverse = example_reverse] example_flattened v example_Member_url
    by simp
qed

section \<open>Saving a Club\<close>

lemma map_replace_mem:
  "x \<in> set rows \<Longrightarrow> pk x = Some k \<Longrightarrow> self \<in> set (map (\<lambda>r. if pk r = Some k then self else r) rows)"
  by (induction rows) auto

lemma Model_save_cases:
  obtains (conflict) "Model_save same_key rows self = Inl IntegrityError"
  | (saved) rows' self' where "Model_save same_key rows self = Inr (rows', self')"
      and "self' \<in> set rows'" and "pk self' \<noteq> None" and "self' = self\<lparr>pk := pk self'\<rparr>"
proof (cases "pk self")
  case None
  show ?thesis
  proof (cases "list_ex (\<lambda>r. same_key r self) rows")
    case True
    with None show ?thesis by (intro conflict) (simp add: Model_save_def)
  next
    case False
    with None show ?thesis
      by (intro saved[of "rows @ [self\<lparr>pk := Some (next_pk rows)\<rparr>]" "self\<lparr>pk := Some (next_pk rows)\<rparr>"])
         (simp_all add: Model_save_def Let_def)
  qed
next
  case (Some k)
  show ?thesis
  proof (cases "list_ex (\<lambda>r. pk r \<noteq> Some k \<and> same_key r self) rows")
    case True
    with Some show ?thesis by (intro conflict) (simp add: Model_save_def)
  next
    case False
    show ?thesis
    proof (cases "has_pk rows (Some k)")
      case True
      then obtain x where "x \<in> set rows" "pk x = Some k"
        by (auto simp: has_pk_def list_ex_iff)
      then have "self \<in> set (map (\<lambda>r. if pk r = Some k then self else r) rows)"
        by (rule map_replace_mem)
      with Some False True show ?thesis
        by (intro saved[of "map (\<lambda>r. if pk r = Some k then self else r) rows" self])
           (simp_all add: Model_save_def)
    next
      case nopk: False
      with Some False show ?thesis
        by (intro saved[of "rows @ [self]" self]) (simp_all add: Model_save_def)
    qed
  qed
qed

lemma Club_save_unset:
  assumes "pk self = None" and "foundation_date self = None"
  shows "Club_save self clk db =
     (case Model_save same_title (clubs db)
        (self\<lparr>foundation_date := Some (DateTime (clk 0)), last_update := Some (DateTime (clk 1))\<rparr>) of
        Inl e \<Rightarrow> (Inl e,
          self\<lparr>foundation_date := Some (DateTime (clk 0)), last_update := Some (DateTime (clk 1))\<rparr>,
          \<lambda>n. clk (Suc (Suc n)), db)
      | Inr (rows, s) \<Rightarrow> (Inr (), s, \<lambda>n. clk (Suc (Suc n)), db\<lparr>clubs := rows\<rparr>))"
  using assms by (auto simp: Club_save_def timezone_now_def split: sum.splits)

lemma Club_save_given:
  assumes "pk self = None" and "foundation_date self \<noteq> None"
  shows "Club_save self clk db =
     (case Model_save same_title (clubs db) (self\<lparr>last_update := Some (DateTime (clk 0))\<rparr>) of
        Inl e \<Rightarrow> (Inl e, self\<lparr>last_update := Some (DateTime (clk 0))\<rparr>, \<lambda>n. clk (Suc n), db)
      | Inr (rows, s) \<Rightarrow> (Inr (), s, \<lambda>n. clk (Suc n), db\<lparr>clubs := rows\<rparr>))"
  using assms by (auto simp: Club_save_def timezone_now_def split: sum.splits)

lemma Club_save_persisted:
  assumes "pk self \<noteq> None"
  shows "Club_save self clk db =
     (case Model_save same_title (clubs db) self of
        Inl e \<Rightarrow> (Inl e, self, clk, db)
      | Inr (rows, s) \<Rightarrow> (Inr (), s, clk, db\<lparr>clubs := rows\<rparr>))"
  using assms by (auto simp: Club_save_def split: sum.splits)

lemma Club_save_first:
  assumes "pk self = None" and "Club_save self clk db = (r, self', clk', db')"
  shows "foundation_date self' =
      (if foundation_date self = None then Some (DateTime (clk 0)) else foundation_date self)"
    and "last_update self' = Some (DateTime (clk (if foundation_date self = None then 1 else 0)))"
    and "r = Inr () \<Longrightarrow> pk self' \<noteq> None \<and> self' \<in> set (clubs db')"
proof -
  define s where "s = (if foundation_date self = None
    then self\<lparr>foundation_date := Some (DateTime (clk 0)), last_update := Some (DateTime (clk 1))\<rparr>
    else self\<lparr>last_update := Some (DateTime (clk 0))\<rparr>)"
  have "foundation_date self' =
      (if foundation_date self = None then Some (DateTime (clk 0)) else foundation_date self) \<and>
    last_update self' = Some (DateTime (clk (if foundation_date self = None then 1 else 0))) \<and>
    (r = Inr () \<longrightarrow> pk self' \<noteq> None \<and> self' \<in> set (clubs db'))"
  proof (cases same_title "clubs db" s rule: Model_save_cases)
    case conflict
    then show ?thesis
      using assms Club_save_unset[OF assms(1), of clk db] Club_save_given[OF assms(1), of clk db]
      by (cases "foundation_date self = None") (auto simp: s_def)
  next
    case (saved rows' s')
    have "foundation_date s' = foundation_date (s\<lparr>pk := pk s'\<rparr>) \<and>
        last_update s' = last_update (s\<lparr>pk := pk s'\<rparr>)"
      using saved(4) by simp
    then have "foundation_date s' = foundation_date s \<and> last_update s' = last_update s"
      by simp
    then show ?thesis
      using assms saved(1,2,3) Club_save_unset[OF assms(1), of clk db]
        Club_save_given[OF assms(1), of clk db]
      by (cases "foundation_date self = None") (auto simp: s_def)
  qed
  then show "foundation_date self' =
      (if foundation_date self = None then Some (DateTime (clk 0)) else foundation_date self)"
    and "last_update self' = Some (DateTime (clk (if foundation_date self = None then 1 else 0)))"
    and "r = Inr () \<Longrightarrow> pk self' \<noteq> None \<and> self' \<in> set (clubs db')"
    by simp_all
qed

lemma Club_save_again:
  assumes "pk self \<noteq> None" and "Club_save self clk db = (r, self', clk', db')"
  shows "self' = self" and "clk' = clk"
    and "r = Inr () \<Longrightarrow> self \<in> set (clubs db')"
proof -
  have "self' = self \<and> clk' = clk \<and> (r = Inr () \<longrightarrow> self \<in> set (clubs db'))"
  proof (cases same_title "clubs db" self rule: Model_save_cases)
    case conflict
    then show ?thesis
      using assms(2) by (auto simp: Club_save_persisted[OF assms(1)])
  next
    case (saved rows' s')
    have "s' = self" using saved(4) assms(1) saved(1)
      by (auto simp: Model_save_def split: option.splits if_splits)
    then show ?thesis
      using assms(2) saved(1,2) by (auto simp: Club_save_persisted[OF assms(1)])
  qed
  then show "self' = self" and "clk' = clk" and "r = Inr () \<Longrightarrow> self \<in> set (clubs db')"
    by simp_all
qed

lemma Club_edit_and_save_keeps:
  "pk self \<noteq> None \<Longrightarrow> Club_edit_and_save edits self clk db = (self', clk', db') \<Longrightarrow>
     pk self' = pk self \<and> foundation_date self' = foundation_date self \<and>
     last_update self' = last_update self \<and> clk' = clk"
proof (induction edits arbitrary: self clk db)
  case Nil
  then show ?case by simp
next
  case (Cons a edits)
  obtain t c where a: "a = (t, c)" by (cases a)
  obtain r s k d where s: "Club_save (self\<lparr>title := t, Club.category := c\<rparr>) clk db = (r, s, k, d)"
    by (cases "Club_save (self\<lparr>title := t, Club.category := c\<rparr>) clk db")
  have p: "pk (self\<lparr>title := t, Club.category := c\<rparr>) \<noteq> None"
    using Cons.prems(1) by simp
  have e: "s = self\<lparr>title := t, Club.category := c\<rparr>" "k = clk"
    using Club_save_again(1,2)[OF p s] by simp_all
  have "Club_edit_and_save edits s k d = (self', clk', db')"
    using Cons.prems(2) a s by simp
  moreover have "pk s \<noteq> None" using e p by simp
  ultimately have "pk self' = pk s \<and> foundation_date self' = foundation_date s \<and>
     last_update self' = last_update s \<and> clk' = k"
    by (rule Cons.IH[rotated])
  then show ?case using e by simp
qed

text \<open>
  C1. A Club saved without primary key gets the current instant as foundation date when
  it has none, and the current instant as last update (two readings of the clock, one
  after the other, when both are set); when the save succeeds the object has a primary
  key and is a row of the table. A save of a Club that has a primary key changes
  neither attribute and does not read the clock, and so does any run of edits and
  saves of such a Club.
\<close>

theorem Club_save_timestamps:
  "(pk self = None \<and> Club_save self clk db = (r, self', clk', db') \<longrightarrow>
      foundation_date self' =
        (if foundation_date self = None then Some (DateTime (clk 0)) else foundation_date self) \<and>
      last_update self' = Some (DateTime (clk (if foundation_date self = None then 1 else 0))) \<and>
      (r = Inr () \<longrightarrow> pk self' \<noteq> None \<and> self' \<in> set (clubs db'))) \<and>
   (pk self \<noteq> None \<and> Club_save self clk db = (r, self', clk', db') \<longrightarrow>
      foundation_date self' = foundation_date self \<and> last_update self' = last_update self \<and>
      clk' = clk \<and> (r = Inr () \<longrightarrow> self' \<in> set (clubs db'))) \<and>
   (pk self \<noteq> None \<and> Club_edit_and_save edits self clk db = (self2, clk2, db2) \<longrightarrow>
      foundation_date self2 = foundation_date self \<and> last_update self2 = last_update self)"
proof (intro conjI impI; (elim conjE)?)
  assume a: "pk self = None" "Club_save self clk db = (r, self', clk', db')"
  show "foundation_date self' =
      (if foundation_date self = None then Some (DateTime (clk 0)) else foundation_date self)"
    by (rule Club_save_first(1)[OF a])
  show "last_update self' = Some (DateTime (clk (if foundation_date self = None then 1 else 0)))"
    by (rule Club_save_first(2)[OF a])
  show "pk self' \<noteq> None" if "r = Inr ()"
    using Club_save_first(3)[OF a that] by simp
  show "self' \<in> set (clubs db')" if "r = Inr ()"
    using Club_save_first(3)[OF a that] by simp
next
  assume a: "pk self \<noteq> None" "Club_save self clk db = (r, self', clk', db')"
  show "foundation_date self' = foundation_date self" "last_update self' = last_update self"
    using Club_save_again(1)[OF a] by simp_all
  show "clk' = clk" by (rule Club_save_again(2)[OF a])
  show "self' \<in> set (clubs db')" if "r = Inr ()"
    using Club_save_again(1)[OF a] Club_save_again(3)[OF a that] by simp
next
  assume a: "pk self \<noteq> None" "Club_edit_and_save edits self clk db = (self2, clk2, db2)"
  show "foundation_date self2 = foundation_date self" "last_update self2 = last_update self"
    using Club_edit_and_save_keeps[OF a] by simp_all
qed

lemma example_first_save:
  "Club_save new_club example_clock empty_db =
     (Inr (),
      new_club\<lparr>pk := Some 1, foundation_date := Some (DateTime 1577836800),
        last_update := Some (DateTime 1577836801)\<rparr>,
      (\<lambda>n. example_clock (Suc (Suc n))),
      empty_db\<lparr>clubs := [new_club\<lparr>pk := Some 1, foundation_date := Some (DateTime 1577836800),
        last_update := Some (DateTime 1577836801)\<rparr>]\<rparr>)"
  by (simp add: Club_save_def new_club_def example_clock_def empty_db_def timezone_now_def
      Model_save_def next_pk_def Let_def)


lemma example_second_save:
  "Club_save riverside example_clock example_db = (Inr (), riverside, example_clock, example_db)"
  by (simp add: Club_save_def riverside_def example_db_def Model_save_def has_pk_def same_title_def)

lemma example_edits:
  "Club_edit_and_save [(''Riverside Tennis'', CATEGORY_PROFESSIONAL), (''Riverside'', CATEGORY_RECREATIONAL)]
     riverside example_clock example_db =
   (riverside\<lparr>title := ''Riverside'', Club.category := CATEGORY_RECREATIONAL\<rparr>, example_clock,
    example_db\<lparr>clubs := [riverside\<lparr>title := ''Riverside'', Club.category := CATEGORY_RECREATIONAL\<rparr>]\<rparr>)"
  by (simp add: Club_save_def riverside_def example_db_def Model_save_def has_pk_def same_title_def)

theorem Club_save_timestamps_witness:
  "pk new_club = None \<and> foundation_date new_club = None \<and>
   fst (Club_save new_club example_clock empty_db) = Inr () \<and>
   foundation_date (fst (snd (Club_save new_club example_clock empty_db))) =
     Some (DateTime 1577836800) \<and>
   last_update (fst (snd (Club_save new_club example_clock empty_db))) =
     Some (DateTime 1577836801) \<and>
   pk riverside \<noteq> None \<and>
   foundation_date (fst (snd (Club_save riverside example_clock example_db))) = Some (Date 737425) \<and>
   last_update (fst (snd (Club_save riverside example_clock example_db))) =
     Some (DateTime 1577836800) \<and>
   last_update (fst (Club_edit_and_save
       [(''Riverside Tennis'', CATEGORY_PROFESSIONAL), (''Riverside'', CATEGORY_RECREATIONAL)]
       riverside example_clock example_db)) = Some (DateTime 1577836800)"
proof -
  have n: "pk new_club = None \<and> foundation_date new_club = None"
    by (simp add: new_club_def)
  have c: "example_clock 0 = 1577836800 \<and> example_clock 1 = 1577836801"
    by (simp add: example_clock_def)
  have p: "pk riverside \<noteq> None \<and> foundation_date riverside = Some (Date 737425) \<and>
      last_update riverside = Some (DateTime 1577836800)"
    by (simp add: riverside_def)
  show ?thesis
    using n c p example_first_save example_second_save example_edits
      Club_save_timestamps[of new_club example_clock empty_db "Inr ()"
        "new_club\<lparr>pk := Some 1, foundation_date := Some (DateTime 1577836800),
          last_update := Some (DateTime 1577836801)\<rparr>"
        "\<lambda>n. example_clock (Suc (Suc n))"
        "empty_db\<lparr>clubs := [new_club\<lparr>pk := Some 1, foundation_date := Some (DateTime 1577836800),
          last_update := Some (DateTime 1577836801)\<rparr>]\<rparr>"]
      Club_save_timestamps[of riverside example_clock example_db "Inr ()" riverside example_clock
        example_db
        "[(''Riverside Tennis'', CATEGORY_PROFESSIONAL), (''Riverside'', CATEGORY_RECREATIONAL)]"
        "riverside\<lparr>title := ''Riverside'', Club.category := CATEGORY_RECREATIONAL\<rparr>" example_clock
        "example_db\<lparr>clubs := [riverside\<lparr>title := ''Riverside'', Club.category := CATEGORY_RECREATIONAL\<rparr>]\<rparr>"]
    by simp
qed

section \<open>Unique indexes\<close>

lemma next_pk_bound: "r \<in> set rows \<Longrightarrow> pk r = Some j \<Longrightarrow> j < next_pk rows"
  unfolding next_pk_def by (induction rows) (auto split: option.splits)

lemma next_pk_fresh: "Some (next_pk rows) \<notin> set (map pk rows)"
proof
  assume "Some (next_pk rows) \<in> set (map pk rows)"
  then obtain r where "r \<in> set rows" "pk r = Some (next_pk rows)" by auto
  then have "next_pk rows < next_pk rows" by (rule next_pk_bound)
  then show False by simp
qed

lemma replace_pks:
  "pk self = Some k \<Longrightarrow> map pk (map (\<lambda>r. if pk r = Some k then self else r) rows) = map pk rows"
  by (induction rows) auto

lemma replace_absent:
  "Some k \<notin> set (map pk rows) \<Longrightarrow> map (\<lambda>r. if pk r = Some k then self else r) rows = rows"
  by (induction rows) auto

lemma replace_keys:
  assumes "distinct (map pk rows)" and "distinct (map key rows)"
    and "\<forall>r \<in> set rows. pk r \<noteq> Some k \<longrightarrow> key r \<noteq> key self"
  shows "distinct (map key (map (\<lambda>r. if pk r = Some k then self else r) rows))"
  using assms
proof (induction rows)
  case Nil
  then show ?case by simp
next
  case (Cons x xs)
  show ?case
  proof (cases "pk x = Some k")
    case True
    then have a: "Some k \<notin> set (map pk xs)" using Cons.prems(1) by auto
    then have "\<forall>r \<in> set xs. pk r \<noteq> Some k" by force
    then have "key self \<notin> set (map key xs)" using Cons.prems(3) by auto
    then show ?thesis using True Cons.prems(2) by (simp add: replace_absent[OF a])
  next
    case False
    have ih: "distinct (map key (map (\<lambda>r. if pk r = Some k then self else r) xs))"
      using Cons by simp
    have "key x \<noteq> key self" using False Cons.prems(3) by simp
    moreover have "key x \<notin> set (map key xs)" using Cons.prems(2) by simp
    ultimately have nx: "key x \<noteq> key self" "key x \<notin> set (map key xs)" by simp_all
    have "key x \<notin> set (map key (map (\<lambda>r. if pk r = Some k then self else r) xs))"
    proof
      assume "key x \<in> set (map key (map (\<lambda>r. if pk r = Some k then self else r) xs))"
      then obtain y where y: "y \<in> set xs" "key x = key (if pk y = Some k then self else y)"
        by auto
      show False
      proof (cases "pk y = Some k")
        case True
        with y nx(1) show False by simp
      next
        case no: False
        with y have "key x \<in> set (map key xs)" by simp
        with nx(2) show False by simp
      qed
    qed
    then show ?thesis using False ih by simp
  qed
qed

lemma Model_save_distinct:
  assumes k: "\<And>r s. same_key r s = (key r = key s)"
    and p: "\<And>s x. key (s\<lparr>pk := x\<rparr>) = key s"
    and d: "distinct (map pk rows)" "distinct (map key rows)"
    and s: "Model_save same_key rows self = Inr (rows', self')"
  shows "distinct (map pk rows') \<and> distinct (map key rows')"
proof (cases "pk self")
  case None
  then have c: "\<not> list_ex (\<lambda>r. same_key r self) rows"
    and r: "rows' = rows @ [self\<lparr>pk := Some (next_pk rows)\<rparr>]"
    using s by (auto simp: Model_save_def Let_def split: if_splits)
  have "key self \<notin> set (map key rows)"
    using c by (auto simp: list_ex_iff k)
  then show ?thesis
    using d r next_pk_fresh[of rows] by (simp add: p)
next
  case (Some j)
  then have c: "\<forall>r \<in> set rows. pk r \<noteq> Some j \<longrightarrow> key r \<noteq> key self"
    using s by (auto simp: Model_save_def list_ex_iff k split: if_splits)
  show ?thesis
  proof (cases "has_pk rows (Some j)")
    case True
    then have r: "rows' = map (\<lambda>r. if pk r = Some j then self else r) rows"
      using s Some by (auto simp: Model_save_def split: if_splits)
    have 1: "distinct (map key rows')"
      unfolding r by (rule replace_keys[OF d c])
    have 2: "map pk rows' = map pk rows"
      unfolding r by (rule replace_pks[OF Some])
    from d(1) have "distinct (map pk rows')" by (simp only: 2)
    with 1 show ?thesis by blast
  next
    case False
    then have r: "rows' = rows @ [self]"
      using s Some by (auto simp: Model_save_def split: if_splits)
    have n: "Some j \<notin> set (map pk rows)"
      using False by (auto simp: has_pk_def list_ex_iff)
    then have "\<forall>r \<in> set rows. pk r \<noteq> Some j" by force
    with c have "\<forall>r \<in> set rows. key r \<noteq> key self" by blast
    then have "key self \<notin> set (map key rows)" by force
    then show ?thesis using d r n Some by simp
  qed
qed

lemma Model_save_conflict:
  assumes "c \<in> set rows" and "same_key c self" and "pk self = None \<or> pk c \<noteq> pk self"
  shows "Model_save same_key rows self = Inl IntegrityError"
  using assms by (cases "pk self") (auto simp: Model_save_def list_ex_iff)

lemma Club_save_shape:
  obtains s k where "Club_save self clk db =
      (case Model_save same_title (clubs db) s of
         Inl e \<Rightarrow> (Inl e, s, k, db)
       | Inr (rows, s') \<Rightarrow> (Inr (), s', k, db\<lparr>clubs := rows\<rparr>))"
    and "title s = title self" and "pk s = pk self"
    and "Club.category s = Club.category self"
proof (cases "pk self = None")
  case True
  show ?thesis
  proof (cases "foundation_date self = None")
    case unset: True
    show ?thesis
      by (rule that[OF Club_save_unset[OF True unset]]) simp_all
  next
    case given: False
    show ?thesis
      by (rule that[OF Club_save_given[OF True given]]) simp_all
  qed
next
  case False
  show ?thesis
    by (rule that[OF Club_save_persisted[OF False]]) simp_all
qed

lemma Club_save_unique:
  assumes "unique_titles db" and "Club_save self clk db = (r, self', clk', db')"
  shows "unique_titles db'"
proof -
  obtain s k where e: "Club_save self clk db =
      (case Model_save same_title (clubs db) s of
         Inl e \<Rightarrow> (Inl e, s, k, db)
       | Inr (rows, s') \<Rightarrow> (Inr (), s', k, db\<lparr>clubs := rows\<rparr>))"
    by (rule Club_save_shape)
  show ?thesis
  proof (cases "Model_save same_title (clubs db) s")
    case (Inl a)
    then show ?thesis using assms e by simp
  next
    case (Inr b)
    obtain rows s' where b: "b = (rows, s')" by (cases b)
    have "distinct (map pk rows) \<and> distinct (map title rows)"
      using assms(1) Inr b
      by (intro Model_save_distinct[where same_key = same_title and rows = "clubs db" and self = s])
         (simp_all add: same_title_def unique_titles_def)
    then show ?thesis using assms(2) e Inr b by (auto simp: unique_titles_def)
  qed
qed

lemma Club_save_conflict:
  assumes "c \<in> set (clubs db)" and "title c = title self" and "pk self = None \<or> pk c \<noteq> pk self"
    and "Club_save self clk db = (r, self', clk', db')"
  shows "r = Inl IntegrityError \<and> db' = db"
proof -
  obtain s k where e: "Club_save self clk db =
      (case Model_save same_title (clubs db) s of
         Inl e \<Rightarrow> (Inl e, s, k, db)
       | Inr (rows, s') \<Rightarrow> (Inr (), s', k, db\<lparr>clubs := rows\<rparr>))"
    and t: "title s = title self" and p: "pk s = pk self"
    by (rule Club_save_shape)
  have "Model_save same_title (clubs db) s = Inl IntegrityError"
    using assms(1,2,3) t p by (intro Model_save_conflict[of c]) (simp_all add: same_title_def)
  then show ?thesis using e assms(4) by simp
qed

lemma Member_save_unique:
  assumes "unique_pairs db" and "Member_save self db = (r, self', db')"
  shows "unique_pairs db'"
proof (cases "Model_save same_profile_and_club (members db) self")
  case (Inl a)
  then show ?thesis using assms by (auto simp: Member_save_def split: if_splits)
next
  case (Inr b)
  obtain rows s' where b: "b = (rows, s')" by (cases b)
  have k: "same_profile_and_club x y =
      ((pk (profile x), pk (Member.club x)) = (pk (profile y), pk (Member.club y)))" for x y
    by (simp add: same_profile_and_club_def)
  have u: "(pk (profile (x\<lparr>pk := j\<rparr>)), pk (Member.club (x\<lparr>pk := j\<rparr>))) =
      (pk (profile x), pk (Member.club x))" for x :: Member and j
    by (cases x) simp
  have d: "distinct (map pk (members db))"
    "distinct (map (\<lambda>m. (pk (profile m), pk (Member.club m))) (members db))"
    using assms(1) by (simp_all add: unique_pairs_def)
  have "distinct (map pk rows) \<and>
      distinct (map (\<lambda>m. (pk (profile m), pk (Member.club m))) rows)"
    using Inr[unfolded b]
    by (rule Model_save_distinct[where key = "\<lambda>m. (pk (profile m), pk (Member.club m))",
          OF k u d])
  then show ?thesis
    using assms Inr b by (auto simp: Member_save_def unique_pairs_def split: if_splits)
qed

lemma Member_save_conflict:
  assumes "c \<in> set (members db)" and "pk (profile c) = pk (profile self)"
    and "pk (Member.club c) = pk (Member.club self)" and "pk self = None \<or> pk c \<noteq> pk self"
    and "Member_save self db = (r, self', db')"
  shows "r = Inl IntegrityError \<and> db' = db \<and> self' = self"
proof -
  have "Model_save same_profile_and_club (members db) self = Inl IntegrityError"
    using assms(1-4) by (intro Model_save_conflict[of c]) (simp_all add: same_profile_and_club_def)
  then show ?thesis using assms(5) by (auto simp: Member_save_def split: if_splits)
qed


section \<open>Deleting rows\<close>

lemma Club_delete_eq:
  "Club_delete k db = Inr (db\<lparr>clubs := filter (\<lambda>c. pk c \<noteq> Some k) (clubs db),
     equipments := filter (\<lambda>e. pk (Equipment.club e) \<noteq> Some k) (equipments db),
     members := filter (\<lambda>m. pk (Member.club m) \<noteq> Some k) (members db)\<rparr>)"
  by (simp add: Club_delete_def collect_def Equipment_club_on_delete_def Member_club_on_delete_def)

lemma Manufacturer_delete_eq:
  "Manufacturer_delete k db = Inr (db\<lparr>manufacturers := filter (\<lambda>m. pk m \<noteq> Some k) (manufacturers db),
     equipments := filter (\<lambda>e. \<not> (case manufacturer e of None \<Rightarrow> False | Some m \<Rightarrow> pk m = Some k))
       (equipments db)\<rparr>)"
  by (simp add: Manufacturer_delete_def collect_def Equipment_manufacturer_on_delete_def)

lemma Profile_delete_eq:
  "Profile_delete k db = Inr (db\<lparr>profiles := filter (\<lambda>p. pk p \<noteq> Some k) (profiles db),
     members := filter (\<lambda>m. pk (profile m) \<noteq> Some k) (members db)\<rparr>)"
  by (simp add: Profile_delete_def collect_def Member_profile_on_delete_def)

lemma delete_unique:
  assumes "unique_titles db" and "unique_pairs db"
    and "Club_delete k db = Inr d \<or> Manufacturer_delete k db = Inr d \<or> Profile_delete k db = Inr d"
  shows "unique_titles d \<and> unique_pairs d"
  using assms
  by (auto simp: Club_delete_eq Manufacturer_delete_eq Profile_delete_eq unique_titles_def
      unique_pairs_def distinct_map_filter)

lemma has_pk_filter:
  "has_pk rows j \<Longrightarrow> j \<noteq> Some k \<Longrightarrow> has_pk (filter (\<lambda>r. pk r \<noteq> Some k) rows) j"
  by (auto simp: has_pk_def list_ex_iff)

lemma not_has_pk_filter: "\<not> has_pk (filter (\<lambda>r. pk r \<noteq> Some k) rows) (Some k)"
  by (auto simp: has_pk_def list_ex_iff)

lemma Club_delete_fk_ok:
  assumes "fk_ok db" shows "fk_ok (db\<lparr>clubs := filter (\<lambda>c. pk c \<noteq> Some k) (clubs db),
     equipments := filter (\<lambda>e. pk (Equipment.club e) \<noteq> Some k) (equipments db),
     members := filter (\<lambda>m. pk (Member.club m) \<noteq> Some k) (members db)\<rparr>)"
  using assms by (auto simp: fk_ok_def list_all_iff intro: has_pk_filter split: option.splits)

lemma Manufacturer_delete_fk_ok:
  assumes "fk_ok db" shows "fk_ok (db\<lparr>manufacturers := filter (\<lambda>m. pk m \<noteq> Some k) (manufacturers db),
     equipments := filter (\<lambda>e. \<not> (case manufacturer e of None \<Rightarrow> False | Some m \<Rightarrow> pk m = Some k))
       (equipments db)\<rparr>)"
  using assms by (auto simp: fk_ok_def list_all_iff intro: has_pk_filter split: option.splits)

lemma Profile_delete_fk_ok:
  assumes "fk_ok db" shows "fk_ok (db\<lparr>profiles := filter (\<lambda>p. pk p \<noteq> Some k) (profiles db),
     members := filter (\<lambda>m. pk (profile m) \<noteq> Some k) (members db)\<rparr>)"
  using assms by (auto simp: fk_ok_def list_all_iff intro: has_pk_filter split: option.splits)

text \<open>
  C2. Deleting a Club always succeeds, removes the Club, and keeps exactly the
  Equipment rows and the Member rows whose club is another one; deleting a
  Manufacturer keeps exactly the Equipment rows of no or of another manufacturer, and
  deleting a Profile exactly the Member rows of another profile. When every foreign
  key referred to an existing row before the deletion, every one does afterwards: no
  row is left that refers to a deleted Club, Manufacturer or Profile.
\<close>

theorem cascade_delete:
  "(\<exists>d. Club_delete k db = Inr d \<and> \<not> has_pk (clubs d) (Some k) \<and>
      equipments d = filter (\<lambda>e. pk (Equipment.club e) \<noteq> Some k) (equipments db) \<and>
      members d = filter (\<lambda>m. pk (Member.club m) \<noteq> Some k) (members db) \<and>
      (fk_ok db \<longrightarrow> fk_ok d)) \<and>
   (\<exists>d. Manufacturer_delete k db = Inr d \<and> \<not> has_pk (manufacturers d) (Some k) \<and>
      equipments d =
        filter (\<lambda>e. case manufacturer e of None \<Rightarrow> True | Some m \<Rightarrow> pk m \<noteq> Some k) (equipments db) \<and>
      (fk_ok db \<longrightarrow> fk_ok d)) \<and>
   (\<exists>d. Profile_delete k db = Inr d \<and> \<not> has_pk (profiles d) (Some k) \<and>
      members d = filter (\<lambda>m. pk (profile m) \<noteq> Some k) (members db) \<and>
      (fk_ok db \<longrightarrow> fk_ok d))"
proof (intro conjI)
  show "\<exists>d. Club_delete k db = Inr d \<and> \<not> has_pk (clubs d) (Some k) \<and>
      equipments d = filter (\<lambda>e. pk (Equipment.club e) \<noteq> Some k) (equipments db) \<and>
      members d = filter (\<lambda>m. pk (Member.club m) \<noteq> Some k) (members db) \<and>
      (fk_ok db \<longrightarrow> fk_ok d)"
    unfolding Club_delete_eq using Club_delete_fk_ok[of db k] not_has_pk_filter[of k "clubs db"]
    by simp
  have f: "(\<lambda>e. \<not> (case manufacturer e of None \<Rightarrow> False | Some m \<Rightarrow> pk m = Some k)) =
      (\<lambda>e. case manufacturer e of None \<Rightarrow> True | Some m \<Rightarrow> pk m \<noteq> Some k)"
    by (auto split: option.splits)
  show "\<exists>d. Manufacturer_delete k db = Inr d \<and> \<not> has_pk (manufacturers d) (Some k) \<and>
      equipments d =
        filter (\<lambda>e. case manufacturer e of None \<Rightarrow> True | Some m \<Rightarrow> pk m \<noteq> Some k) (equipments db) \<and>
      (fk_ok db \<longrightarrow> fk_ok d)"
    unfolding Manufacturer_delete_eq
    using Manufacturer_delete_fk_ok[of db k] not_has_pk_filter[of k "manufacturers db"]
    by (simp add: f)
  show "\<exists>d. Profile_delete k db = Inr d \<and> \<not> has_pk (profiles d) (Some k) \<and>
      members d = filter (\<lambda>m. pk (profile m) \<noteq> Some k) (members db) \<and>
      (fk_ok db \<longrightarrow> fk_ok d)"
    unfolding Profile_delete_eq using Profile_delete_fk_ok[of db k] not_has_pk_filter[of k "profiles db"]
    by simp
qed

lemma example_fk_ok: "fk_ok example_db"
  by (simp add: fk_ok_def example_db_def has_pk_def racket_a_def shuttle_b_def example_member_def
      riverside_def example_profile_def example_manufacturer_def)

lemma example_Club_delete:
  "Club_delete 1 example_db = Inr (example_db\<lparr>clubs := [], equipments := [], members := []\<rparr>)"
  by (simp add: Club_delete_eq example_db_def racket_a_def shuttle_b_def example_member_def
      riverside_def)

lemma example_Manufacturer_delete:
  "Manufacturer_delete 1 example_db = Inr (example_db\<lparr>manufacturers := [], equipments := [racket_a]\<rparr>)"
  by (simp add: Manufacturer_delete_eq example_db_def racket_a_def shuttle_b_def
      example_manufacturer_def)

lemma example_Profile_delete:
  "Profile_delete 1 example_db = Inr (example_db\<lparr>profiles := [], members := []\<rparr>)"
  by (simp add: Profile_delete_eq example_db_def example_member_def example_profile_def)

theorem cascade_delete_witness:
  "fk_ok example_db \<and>
   Club_delete 1 example_db = Inr (example_db\<lparr>clubs := [], equipments := [], members := []\<rparr>) \<and>
   fk_ok (example_db\<lparr>clubs := [], equipments := [], members := []\<rparr>) \<and>
   Manufacturer_delete 1 example_db =
     Inr (example_db\<lparr>manufacturers := [], equipments := [racket_a]\<rparr>) \<and>
   fk_ok (example_db\<lparr>manufacturers := [], equipments := [racket_a]\<rparr>) \<and>
   Profile_delete 1 example_db = Inr (example_db\<lparr>profiles := [], members := []\<rparr>) \<and>
   fk_ok (example_db\<lparr>profiles := [], members := []\<rparr>)"
proof -
  from cascade_delete[of 1 example_db] example_fk_ok
  have "fk_ok (example_db\<lparr>clubs := [], equipments := [], members := []\<rparr>) \<and>
      fk_ok (example_db\<lparr>manufacturers := [], equipments := [racket_a]\<rparr>) \<and>
      fk_ok (example_db\<lparr>profiles := [], members := []\<rparr>)"
    by (auto simp: example_Club_delete example_Manufacturer_delete example_Profile_delete)
  then show ?thesis
    using example_fk_ok
    by (simp add: example_Club_delete example_Manufacturer_delete example_Profile_delete)
qed


section \<open>Uniqueness of titles and of memberships\<close>

lemma distinct_map_nth_neq:
  "distinct (map f xs) \<Longrightarrow> i < j \<Longrightarrow> j < length xs \<Longrightarrow> f (xs ! i) \<noteq> f (xs ! j)"
  using nth_eq_iff_index_eq[of "map f xs" i j] by simp

lemma Club_save_members:
  "Club_save self clk db = (r, self', clk', db') \<Longrightarrow> members db' = members db"
  by (rule Club_save_shape[of self clk db]) (auto split: sum.splits)

lemma Member_save_clubs:
  "Member_save m db = (r, m', db') \<Longrightarrow> clubs db' = clubs db"
  by (auto simp: Member_save_def split: if_splits sum.splits)

text \<open>
  C3. In a table whose unique indexes hold, two different Club rows have different
  titles and two different Member rows have different (profile, club) pairs. The
  indexes hold in the empty database and after every save and every deletion. Saving
  a new Club whose title is the title of a row, or a new Member whose profile and club
  are those of a row, fails with IntegrityError and leaves the database as it was (the
  same holds for an object whose primary key is not that of the row).
\<close>

theorem unique_title_and_pair:
  "(unique_titles db \<and> i < j \<and> j < length (clubs db) \<longrightarrow>
      title (clubs db ! i) \<noteq> title (clubs db ! j)) \<and>
   (unique_titles db \<and> Club_save self clk db = (r, self', clk', db') \<longrightarrow> unique_titles db') \<and>
   (c \<in> set (clubs db) \<and> title c = title self \<and> (pk self = None \<or> pk c \<noteq> pk self) \<and>
      Club_save self clk db = (r, self', clk', db') \<longrightarrow> r = Inl IntegrityError \<and> db' = db) \<and>
   (unique_pairs db \<and> i < j \<and> j < length (members db) \<longrightarrow>
      (pk (profile (members db ! i)), pk (Member.club (members db ! i))) \<noteq>
      (pk (profile (members db ! j)), pk (Member.club (members db ! j)))) \<and>
   (unique_pairs db \<and> Member_save m db = (rm, m', dbm) \<longrightarrow> unique_pairs dbm) \<and>
   (x \<in> set (members db) \<and> pk (profile x) = pk (profile m) \<and>
      pk (Member.club x) = pk (Member.club m) \<and> (pk m = None \<or> pk x \<noteq> pk m) \<and>
      Member_save m db = (rm, m', dbm) \<longrightarrow> rm = Inl IntegrityError \<and> dbm = db) \<and>
   (unique_pairs db \<and> Club_save self clk db = (r, self', clk', db') \<longrightarrow> unique_pairs db') \<and>
   (unique_titles db \<and> Member_save m db = (rm, m', dbm) \<longrightarrow> unique_titles dbm) \<and>
   (unique_titles db \<and> unique_pairs db \<and>
      (Club_delete k db = Inr d \<or> Manufacturer_delete k db = Inr d \<or> Profile_delete k db = Inr d) \<longrightarrow>
      unique_titles d \<and> unique_pairs d) \<and>
   unique_titles empty_db \<and> unique_pairs empty_db"
proof (intro conjI impI; (elim conjE)?)
  show "title (clubs db ! i) \<noteq> title (clubs db ! j)"
    if "unique_titles db" "i < j" "j < length (clubs db)"
    using that by (intro distinct_map_nth_neq) (simp_all add: unique_titles_def)
  show "unique_titles db'" if "unique_titles db" "Club_save self clk db = (r, self', clk', db')"
    using that by (rule Club_save_unique)
  show "r = Inl IntegrityError" "db' = db"
    if "c \<in> set (clubs db)" "title c = title self" "pk self = None \<or> pk c \<noteq> pk self"
      "Club_save self clk db = (r, self', clk', db')"
    using Club_save_conflict[OF that] by simp_all
  show "(pk (profile (members db ! i)), pk (Member.club (members db ! i))) \<noteq>
      (pk (profile (members db ! j)), pk (Member.club (members db ! j)))"
    if "unique_pairs db" "i < j" "j < length (members db)"
    using distinct_map_nth_neq[of "\<lambda>m. (pk (profile m), pk (Member.club m))" "members db" i j] that
    by (simp add: unique_pairs_def)
  show "unique_pairs dbm" if "unique_pairs db" "Member_save m db = (rm, m', dbm)"
    using that by (rule Member_save_unique)
  show "rm = Inl IntegrityError" "dbm = db"
    if "x \<in> set (members db)" "pk (profile x) = pk (profile m)"
      "pk (Member.club x) = pk (Member.club m)" "pk m = None \<or> pk x \<noteq> pk m"
      "Member_save m db = (rm, m', dbm)"
    using Member_save_conflict[OF that] by simp_all
  show "unique_pairs db'" if "unique_pairs db" "Club_save self clk db = (r, self', clk', db')"
    using that Club_save_members[of self clk db r self' clk' db'] by (simp add: unique_pairs_def)
  show "unique_titles dbm" if "unique_titles db" "Member_save m db = (rm, m', dbm)"
    using that Member_save_clubs[of m db rm m' dbm] by (simp add: unique_titles_def)
  show "unique_titles d" "unique_pairs d"
    if "unique_titles db" "unique_pairs db"
      "Club_delete k db = Inr d \<or> Manufacturer_delete k db = Inr d \<or> Profile_delete k db = Inr d"
    using delete_unique[OF that] by simp_all
  show "unique_titles empty_db" "unique_pairs empty_db"
    by (simp_all add: unique_titles_def unique_pairs_def empty_db_def)
qed

lemma example_unique: "unique_titles example_db \<and> unique_pairs example_db"
  by (simp add: unique_titles_def unique_pairs_def example_db_def)

lemma example_duplicate_title:
  "Club_save new_club example_clock example_db =
     (Inl IntegrityError,
      new_club\<lparr>foundation_date := Some (DateTime 1577836800), last_update := Some (DateTime 1577836801)\<rparr>,
      (\<lambda>n. example_clock (Suc (Suc n))), example_db)"
  by (simp add: Club_save_def new_club_def example_clock_def example_db_def timezone_now_def
      Model_save_def riverside_def same_title_def)

lemma example_duplicate_pair:
  "Member_save (example_member\<lparr>pk := None, role := ROLE_OWNER\<rparr>) example_db =
     (Inl IntegrityError, example_member\<lparr>pk := None, role := ROLE_OWNER\<rparr>, example_db)"
  by (simp add: Member_save_def example_db_def example_member_def Model_save_def has_pk_def
      same_profile_and_club_def example_profile_def riverside_def)

theorem unique_title_and_pair_witness:
  "unique_titles example_db \<and> unique_pairs example_db \<and>
   riverside \<in> set (clubs example_db) \<and> title riverside = title new_club \<and> pk new_club = None \<and>
   fst (Club_save new_club example_clock example_db) = Inl IntegrityError \<and>
   snd (snd (snd (Club_save new_club example_clock example_db))) = example_db \<and>
   example_member \<in> set (members example_db) \<and>
   fst (Member_save (example_member\<lparr>pk := None, role := ROLE_OWNER\<rparr>) example_db) =
     Inl IntegrityError \<and>
   snd (snd (Member_save (example_member\<lparr>pk := None, role := ROLE_OWNER\<rparr>) example_db)) = example_db \<and>
   unique_titles (snd (snd (snd (Club_save (new_club\<lparr>title := ''Hillside''\<rparr>) example_clock example_db))))"
proof -
  have a: "riverside \<in> set (clubs example_db) \<and> title riverside = title new_club \<and>
      pk new_club = None \<and> example_member \<in> set (members example_db)"
    by (simp add: example_db_def riverside_def new_club_def)
  obtain r s k d where h: "Club_save (new_club\<lparr>title := ''Hillside''\<rparr>) example_clock example_db = (r, s, k, d)"
    by (cases "Club_save (new_club\<lparr>title := ''Hillside''\<rparr>) example_clock example_db")
  have "unique_titles d"
    using unique_title_and_pair[of example_db _ _ "new_club\<lparr>title := ''Hillside''\<rparr>" example_clock
        r s k d] example_unique h
    by blast
  moreover have "fst (Club_save new_club example_clock example_db) = Inl IntegrityError \<and>
      snd (snd (snd (Club_save new_club example_clock example_db))) = example_db"
    using unique_title_and_pair[of example_db _ _ new_club example_clock "Inl IntegrityError"
        "new_club\<lparr>foundation_date := Some (DateTime 1577836800),
          last_update := Some (DateTime 1577836801)\<rparr>"
        "\<lambda>n. example_clock (Suc (Suc n))" example_db riverside] a example_duplicate_title
    by simp
  ultimately show ?thesis
    using a h example_unique example_duplicate_pair by simp
qed

section \<open>Choices and saving\<close>

lemma Model_save_tag:
  "(case Model_save same_key rows self of Inl e \<Rightarrow> Inl e | Inr x \<Rightarrow> Inr ()) =
     (if (case pk self of None \<Rightarrow> list_ex (\<lambda>r. same_key r self) rows
          | Some k \<Rightarrow> list_ex (\<lambda>r. pk r \<noteq> Some k \<and> same_key r self) rows)
      then Inl IntegrityError else Inr ())"
  by (cases "pk self") (simp_all add: Model_save_def Let_def)

lemma Club_save_tag:
  "fst (Club_save self clk db) =
     (if (case pk self of None \<Rightarrow> list_ex (\<lambda>r. title r = title self) (clubs db)
          | Some k \<Rightarrow> list_ex (\<lambda>r. pk r \<noteq> Some k \<and> title r = title self) (clubs db))
      then Inl IntegrityError else Inr ())"
proof (rule Club_save_shape[of self clk db])
  fix s k
  assume e: "Club_save self clk db =
      (case Model_save same_title (clubs db) s of
         Inl e \<Rightarrow> (Inl e, s, k, db)
       | Inr (rows, s') \<Rightarrow> (Inr (), s', k, db\<lparr>clubs := rows\<rparr>))"
    and t: "title s = title self" and p: "pk s = pk self"
  have "fst (Club_save self clk db) =
      (case Model_save same_title (clubs db) s of Inl e \<Rightarrow> Inl e | Inr x \<Rightarrow> Inr ())"
    unfolding e by (simp split: sum.splits prod.splits)
  then show ?thesis
    unfolding Model_save_tag by (simp add: same_title_def t p split: option.splits)
qed

lemma Member_save_tag:
  "fst (Member_save m db) =
     (if \<not> has_pk (profiles db) (pk (profile m)) \<or> \<not> has_pk (clubs db) (pk (Member.club m)) \<or>
         (case pk m of None \<Rightarrow> list_ex (\<lambda>r. same_profile_and_club r m) (members db)
          | Some k \<Rightarrow> list_ex (\<lambda>r. pk r \<noteq> Some k \<and> same_profile_and_club r m) (members db))
      then Inl IntegrityError else Inr ())"
proof -
  have "fst (Member_save m db) =
     (if \<not> has_pk (profiles db) (pk (profile m)) \<or> \<not> has_pk (clubs db) (pk (Member.club m))
      then Inl IntegrityError
      else (case Model_save same_profile_and_club (members db) m of Inl e \<Rightarrow> Inl e | Inr x \<Rightarrow> Inr ()))"
    by (simp add: Member_save_def split: sum.splits prod.splits)
  then show ?thesis unfolding Model_save_tag by auto
qed

lemma Equipment_save_tag:
  "fst (Equipment_save e db) =
     (if \<not> has_pk (clubs db) (pk (Equipment.club e)) \<or>
         (case manufacturer e of None \<Rightarrow> False | Some m \<Rightarrow> \<not> has_pk (manufacturers db) (pk m))
      then Inl IntegrityError else Inr ())"
proof -
  have "fst (Equipment_save e db) =
     (if \<not> has_pk (clubs db) (pk (Equipment.club e)) \<or>
         (case manufacturer e of None \<Rightarrow> False | Some m \<Rightarrow> \<not> has_pk (manufacturers db) (pk m))
      then Inl IntegrityError
      else (case Model_save (\<lambda>r s. False) (equipments db) e of Inl e \<Rightarrow> Inl e | Inr x \<Rightarrow> Inr ()))"
    by (simp add: Equipment_save_def split: sum.splits prod.splits)
  then show ?thesis unfolding Model_save_tag by (auto simp: list_ex_iff split: option.splits)
qed

lemma Model_save_kept:
  assumes "Model_save same_key rows self = Inr (rows', self')"
  shows "self' \<in> set rows' \<and> self' = self\<lparr>pk := pk self'\<rparr>"
  by (rule Model_save_cases[of same_key rows self]) (use assms in auto)

lemma Club_save_stored:
  assumes "Club_save self clk db = (Inr (), self', clk', db')"
  shows "self' \<in> set (clubs db') \<and> Club.category self' = Club.category self"
proof (rule Club_save_shape[of self clk db])
  fix s k
  assume e: "Club_save self clk db =
      (case Model_save same_title (clubs db) s of
         Inl e \<Rightarrow> (Inl e, s, k, db)
       | Inr (rows, s') \<Rightarrow> (Inr (), s', k, db\<lparr>clubs := rows\<rparr>))"
    and c: "Club.category s = Club.category self"
  from assms e obtain rows where m: "Model_save same_title (clubs db) s = Inr (rows, self')"
    and d: "db' = db\<lparr>clubs := rows\<rparr>"
    by (auto split: sum.splits prod.splits)
  have k: "self' \<in> set rows" and u: "self' = s\<lparr>pk := pk self'\<rparr>"
    using Model_save_kept[OF m] by blast+
  have "Club.category self' = Club.category (s\<lparr>pk := pk self'\<rparr>)"
    using u by simp
  then have "Club.category self' = Club.category s" by simp
  then show ?thesis
    using k c d by simp
qed

lemma Member_save_stored:
  assumes "Member_save m db = (Inr (), m', db')"
  shows "m' \<in> set (members db') \<and> plays m' = plays m \<and> role m' = role m"
proof -
  from assms obtain rows where s: "Model_save same_profile_and_club (members db) m = Inr (rows, m')"
    and d: "db' = db\<lparr>members := rows\<rparr>"
    by (auto simp: Member_save_def split: if_splits sum.splits prod.splits)
  have k: "m' \<in> set rows" and u: "m' = m\<lparr>pk := pk m'\<rparr>"
    using Model_save_kept[OF s] by blast+
  have "plays m' = plays (m\<lparr>pk := pk m'\<rparr>) \<and> role m' = role (m\<lparr>pk := pk m'\<rparr>)"
    using u by simp
  then have "plays m' = plays m \<and> role m' = role m" by simp
  then show ?thesis
    using k d by simp
qed

lemma Equipment_save_stored:
  assumes "Equipment_save e db = (Inr (), e', db')"
  shows "e' \<in> set (equipments db') \<and> Equipment.category e' = Equipment.category e"
proof -
  from assms obtain rows where s: "Model_save (\<lambda>r s. False) (equipments db) e = Inr (rows, e')"
    and d: "db' = db\<lparr>equipments := rows\<rparr>"
    by (auto simp: Equipment_save_def split: if_splits sum.splits prod.splits)
  have k: "e' \<in> set rows" and u: "e' = e\<lparr>pk := pk e'\<rparr>"
    using Model_save_kept[OF s] by blast+
  have "Equipment.category e' = Equipment.category (e\<lparr>pk := pk e'\<rparr>)"
    using u by simp
  then have "Equipment.category e' = Equipment.category e" by simp
  then show ?thesis
    using k d by simp
qed

text \<open>
  C7, as the code has it. No save compares an enumeration-valued field with its choice
  set. For the values that the column of an IntegerField holds in every storage backend
  (32 bits), in the choice set or not, whether the save of a Club, an Equipment or a
  Member succeeds is the same whatever Club.category, Equipment.category, Member.plays
  and Member.role are, and an object whose save succeeds keeps these values and is
  stored with them.
\<close>

theorem choices_not_checked_on_save:
  "(IntegerField_safe v \<and> IntegerField_safe (Club.category self) \<longrightarrow>
      fst (Club_save (self\<lparr>Club.category := v\<rparr>) clk db) = fst (Club_save self clk db)) \<and>
   (IntegerField_safe (Club.category self) \<and> Club_save self clk db = (Inr (), self', clk', db') \<longrightarrow>
      Club.category self' = Club.category self \<and>
      (\<exists>row \<in> set (clubs db'). pk row = pk self' \<and> Club.category row = Club.category self)) \<and>
   (IntegerField_safe v \<and> IntegerField_safe (Equipment.category e) \<longrightarrow>
      fst (Equipment_save (e\<lparr>Equipment.category := v\<rparr>) db) = fst (Equipment_save e db)) \<and>
   (IntegerField_safe (Equipment.category e) \<and> Equipment_save e db = (Inr (), e', dbe) \<longrightarrow>
      Equipment.category e' = Equipment.category e \<and>
      (\<exists>row \<in> set (equipments dbe). pk row = pk e' \<and>
         Equipment.category row = Equipment.category e)) \<and>
   (IntegerField_safe v \<and> IntegerField_safe w \<and> IntegerField_safe (plays m) \<and>
      IntegerField_safe (role m) \<longrightarrow>
      fst (Member_save (m\<lparr>plays := v, role := w\<rparr>) db) = fst (Member_save m db)) \<and>
   (IntegerField_safe (plays m) \<and> IntegerField_safe (role m) \<and>
      Member_save m db = (Inr (), m', dbm) \<longrightarrow>
      plays m' = plays m \<and> role m' = role m \<and>
      (\<exists>row \<in> set (members dbm). pk row = pk m' \<and> plays row = plays m \<and> role row = role m))"
proof (intro conjI impI; (elim conjE)?)
  show "fst (Club_save (self\<lparr>Club.category := v\<rparr>) clk db) = fst (Club_save self clk db)"
    by (simp add: Club_save_tag split: option.splits)
  show "fst (Equipment_save (e\<lparr>Equipment.category := v\<rparr>) db) = fst (Equipment_save e db)"
    by (simp add: Equipment_save_tag split: option.splits)
  show "fst (Member_save (m\<lparr>plays := v, role := w\<rparr>) db) = fst (Member_save m db)"
    by (simp add: Member_save_tag same_profile_and_club_def split: option.splits)
  show "Club.category self' = Club.category self"
    "\<exists>row \<in> set (clubs db'). pk row = pk self' \<and> Club.category row = Club.category self"
    if "Club_save self clk db = (Inr (), self', clk', db')"
    using Club_save_stored[OF that] by auto
  show "Equipment.category e' = Equipment.category e"
    "\<exists>row \<in> set (equipments dbe). pk row = pk e' \<and> Equipment.category row = Equipment.category e"
    if "Equipment_save e db = (Inr (), e', dbe)"
    using Equipment_save_stored[OF that] by auto
  show "plays m' = plays m" "role m' = role m"
    "\<exists>row \<in> set (members dbm). pk row = pk m' \<and> plays row = plays m \<and> role row = role m"
    if "Member_save m db = (Inr (), m', dbm)"
    using Member_save_stored[OF that] by auto
qed

lemma example_out_of_set:
  "Club_save (new_club\<lparr>Club.category := 99\<rparr>) example_clock empty_db =
     (Inr (),
      new_club\<lparr>pk := Some 1, Club.category := 99, foundation_date := Some (DateTime 1577836800),
        last_update := Some (DateTime 1577836801)\<rparr>,
      (\<lambda>n. example_clock (Suc (Suc n))),
      empty_db\<lparr>clubs := [new_club\<lparr>pk := Some 1, Club.category := 99,
        foundation_date := Some (DateTime 1577836800),
        last_update := Some (DateTime 1577836801)\<rparr>]\<rparr>)"
  by (simp add: Club_save_def new_club_def example_clock_def empty_db_def timezone_now_def
      Model_save_def next_pk_def Let_def)

text \<open>
  C7, as stated, fails: 99 is not a category of Club, and a new Club of category 99 is
  saved without error and stored as the only row of the empty table.
\<close>

theorem choice_validation_counterexample:
  "map_of Club_CATEGORIES 99 = None \<and>
   fst (Club_save (new_club\<lparr>Club.category := 99\<rparr>) example_clock empty_db) = Inr () \<and>
   clubs (snd (snd (snd (Club_save (new_club\<lparr>Club.category := 99\<rparr>) example_clock empty_db)))) =
     [new_club\<lparr>pk := Some 1, Club.category := 99, foundation_date := Some (DateTime 1577836800),
        last_update := Some (DateTime 1577836801)\<rparr>]"
  by (simp add: example_out_of_set Club_CATEGORIES_def CATEGORY_RECREATIONAL_def
      CATEGORY_PROFESSIONAL_def)

lemma example_Member_out_of_set:
  "Member_save (example_member\<lparr>pk := None, plays := 77\<rparr>) (example_db\<lparr>members := []\<rparr>) =
     (Inr (), example_member\<lparr>pk := Some 1, plays := 77\<rparr>,
      example_db\<lparr>members := [example_member\<lparr>pk := Some 1, plays := 77\<rparr>]\<rparr>)"
  by (simp add: Member_save_def example_db_def example_member_def Model_save_def has_pk_def
      example_profile_def riverside_def next_pk_def Let_def)

theorem choices_not_checked_on_save_witness:
  "map_of SPORTS 77 = None \<and> IntegerField_safe 77 \<and>
   IntegerField_safe (role (example_member\<lparr>pk := None, plays := 77\<rparr>)) \<and>
   Member_save (example_member\<lparr>pk := None, plays := 77\<rparr>) (example_db\<lparr>members := []\<rparr>) =
     (Inr (), example_member\<lparr>pk := Some 1, plays := 77\<rparr>,
      example_db\<lparr>members := [example_member\<lparr>pk := Some 1, plays := 77\<rparr>]\<rparr>) \<and>
   plays (example_member\<lparr>pk := Some 1, plays := 77\<rparr>) = 77 \<and>
   (\<exists>row \<in> set (members (example_db\<lparr>members := [example_member\<lparr>pk := Some 1, plays := 77\<rparr>]\<rparr>)).
      pk row = Some 1 \<and> plays row = 77) \<and>
   IntegerField_safe 5 \<and> IntegerField_safe (Club.category riverside) \<and>
   fst (Club_save (riverside\<lparr>Club.category := 5\<rparr>) example_clock example_db) =
     fst (Club_save riverside example_clock example_db)"
proof -
  have s: "map_of SPORTS 77 = None"
    by (simp add: SPORTS_def BASIC_SPORTS_def SPORT_BADMINTON_def SPORT_TENNIS_def
        SPORT_TABLE_TENNIS_def SPORT_SQUASH_def SPORT_ANOTHER_def)
  have i: "IntegerField_safe 77 \<and> IntegerField_safe 5 \<and>
      IntegerField_safe (Club.category riverside) \<and>
      IntegerField_safe (plays (example_member\<lparr>pk := None, plays := 77\<rparr>)) \<and>
      IntegerField_safe (role (example_member\<lparr>pk := None, plays := 77\<rparr>))"
    by (simp add: IntegerField_safe_def riverside_def CATEGORY_RECREATIONAL_def example_member_def
        ROLE_MEMBER_def)
  note t = choices_not_checked_on_save[where m = "example_member\<lparr>pk := None, plays := 77\<rparr>"
        and db = "example_db\<lparr>members := []\<rparr>" and m' = "example_member\<lparr>pk := Some 1, plays := 77\<rparr>"
        and dbm = "example_db\<lparr>members := [example_member\<lparr>pk := Some 1, plays := 77\<rparr>]\<rparr>"]
  from t i example_Member_out_of_set
  have "\<exists>row \<in> set (members (example_db\<lparr>members := [example_member\<lparr>pk := Some 1, plays := 77\<rparr>]\<rparr>)).
      pk row = pk (example_member\<lparr>pk := Some 1, plays := 77\<rparr>) \<and>
      plays row = plays (example_member\<lparr>pk := None, plays := 77\<rparr>) \<and>
      role row = role (example_member\<lparr>pk := None, plays := 77\<rparr>)"
    by blast
  then have r: "\<exists>row \<in> set (members (example_db\<lparr>members := [example_member\<lparr>pk := Some 1, plays := 77\<rparr>]\<rparr>)).
      pk row = Some 1 \<and> plays row = 77"
    by simp
  have c: "fst (Club_save (riverside\<lparr>Club.category := 5\<rparr>) example_clock example_db) =
      fst (Club_save riverside example_clock example_db)"
    using choices_not_checked_on_save[where self = riverside and v = 5 and clk = example_clock
        and db = example_db] i
    by blast
  from s i example_Member_out_of_set r c show ?thesis by simp
qed

end
